theory Spec2Isabelle
  imports Main "HOL-Library.AList"
begin

section \<open>Python values and library functions used by the service\<close>

text \<open>
  Strings are byte strings (\<open>char list\<close>); a text written with \<open>encoding="utf-8"\<close> is the
  same byte sequence. Exceptions are values: the class of the exception and \<open>str(e)\<close>.
  The type ranges over subclasses of \<open>Exception\<close>, which is what \<open>except Exception\<close>
  catches; \<open>OSError\<close> and the classes after it are the I/O error classes of Python
  (\<open>IOError\<close> is an alias of \<open>OSError\<close>, the others are its subclasses).
  \<open>OtherException\<close> carries the name of any class not listed.
\<close>

datatype exc_class =
    ValueError | RuntimeError | UnicodeEncodeError | SDKError | OtherException string
  | OSError | FileNotFoundError | PermissionError | IsADirectoryError
  | NotADirectoryError | FileExistsError

datatype error = Exc (exc_class: exc_class) (exc_str: string)

definition is_io_error :: "error \<Rightarrow> bool" where
  "is_io_error e = (exc_class e \<in> {OSError, FileNotFoundError, PermissionError,
     IsADirectoryError, NotADirectoryError, FileExistsError})"

text \<open>\<open>sep.join(xs)\<close> of Python.\<close>

fun str_join :: "string \<Rightarrow> string list \<Rightarrow> string" where
  "str_join sep [] = []"
| "str_join sep [x] = x"
| "str_join sep (x # y # ys) = x @ sep @ str_join sep (y # ys)"

text \<open>\<open>s.lower()\<close> on ASCII letters; every other byte is kept.\<close>

definition char_lower :: "char \<Rightarrow> char" where
  "char_lower c = (let n = (of_char c :: nat) in if 65 \<le> n \<and> n \<le> 90 then char_of (n + 32) else c)"

definition str_lower :: "string \<Rightarrow> string" where
  "str_lower s = map char_lower s"

text \<open>\<open>s.lstrip('.')\<close>.\<close>

definition lstrip_dot :: "string \<Rightarrow> string" where
  "lstrip_dot s = dropWhile (\<lambda>c. c = CHR ''.'') s"

text \<open>\<open>s.rfind(c)\<close>: the last index of \<open>c\<close>, \<open>None\<close> for Python's \<open>-1\<close>.\<close>

fun rfind :: "char \<Rightarrow> string \<Rightarrow> nat option" where
  "rfind c [] = None"
| "rfind c (x # xs) =
     (case rfind c xs of Some i \<Rightarrow> Some (Suc i) | None \<Rightarrow> if x = c then Some 0 else None)"

text \<open>\<open>base64.b64encode\<close> (standard alphabet, padded with \<open>=\<close>).\<close>

definition b64_alphabet :: string where
  "b64_alphabet = ''ABCDEFGHIJKLMNOPQRSTUVWXYZabcdefghijklmnopqrstuvwxyz0123456789+/''"

definition b64_digit :: "nat \<Rightarrow> char" where
  "b64_digit n = b64_alphabet ! (n mod 64)"

fun b64_groups :: "nat list \<Rightarrow> string" where
  "b64_groups [] = []"
| "b64_groups [a] = [b64_digit (a div 4), b64_digit ((a mod 4) * 16), CHR ''='', CHR ''='']"
| "b64_groups [a, b] =
     [b64_digit (a div 4), b64_digit ((a mod 4) * 16 + b div 16),
      b64_digit ((b mod 16) * 4), CHR ''='']"
| "b64_groups (a # b # c # rest) =
     [b64_digit (a div 4), b64_digit ((a mod 4) * 16 + b div 16),
      b64_digit ((b mod 16) * 4 + c div 64), b64_digit (c mod 64)] @ b64_groups rest"

definition b64encode :: "string \<Rightarrow> string" where
  "b64encode s = b64_groups (map of_char s)"

subsection \<open>Metadata values and \<open>json.dump(metadata, f, indent=2, ensure_ascii=False)\<close>\<close>

text \<open>
  The values the service stores in a metadata dictionary are strings, booleans and
  integers. A dictionary is an association list in insertion order with distinct keys;
  \<open>d[k] = v\<close> is \<open>AList.update k v d\<close>, \<open>d.get(k)\<close> is \<open>map_of d k\<close>.
\<close>

datatype jvalue = JStr string | JBool bool | JInt int

type_synonym metadata = "(string \<times> jvalue) list"

definition hex_digit :: "nat \<Rightarrow> char" where
  "hex_digit n = ''0123456789abcdef'' ! (n mod 16)"

definition json_escape_char :: "char \<Rightarrow> string" where
  "json_escape_char c =
     (let n = (of_char c :: nat) in
      if c = CHR 0x5C then [CHR 0x5C, CHR 0x5C]
      else if c = CHR 0x22 then [CHR 0x5C, CHR 0x22]
      else if n = 8 then [CHR 0x5C, CHR ''b'']
      else if n = 12 then [CHR 0x5C, CHR ''f'']
      else if n = 10 then [CHR 0x5C, CHR ''n'']
      else if n = 13 then [CHR 0x5C, CHR ''r'']
      else if n = 9 then [CHR 0x5C, CHR ''t'']
      else if n < 32 then [CHR 0x5C, CHR ''u'', CHR ''0'', CHR ''0'', hex_digit (n div 16), hex_digit n]
      else [c])"

definition json_string :: "string \<Rightarrow> string" where
  "json_string s = [CHR 0x22] @ concat (map json_escape_char s) @ [CHR 0x22]"

fun show_nat :: "nat \<Rightarrow> string" where
  "show_nat n = (if n < 10 then [hex_digit n] else show_nat (n div 10) @ [hex_digit (n mod 10)])"

declare show_nat.simps [simp del]

definition show_int :: "int \<Rightarrow> string" where
  "show_int i = (if i < 0 then CHR ''-'' # show_nat (nat (- i)) else show_nat (nat i))"

fun json_value :: "jvalue \<Rightarrow> string" where
  "json_value (JStr s) = json_string s"
| "json_value (JBool b) = (if b then ''true'' else ''false'')"
| "json_value (JInt i) = show_int i"

definition json_dumps :: "metadata \<Rightarrow> string" where
  "json_dumps d =
     (if d = [] then ''{}''
      else ''{'' @ [CHR 0x0A] @ ''  '' @
           str_join ('','' @ [CHR 0x0A] @ ''  '')
             (map (\<lambda>(k, v). json_string k @ '': '' @ json_value v) d) @
           [CHR 0x0A] @ ''}'')"

section \<open>Paths and the file system\<close>

text \<open>
  A \<open>pathlib.Path\<close> is the list of its parts; the root of an absolute path is the part
  \<open>''/''\<close> (or \<open>''//''\<close>, which POSIX keeps apart) at the head. \<open>name\<close>, \<open>suffix\<close> and
  \<open>stem\<close> are pathlib's (Python 3.13 and earlier): the suffix starts at the last dot
  of the name, unless that dot is the first or the last character.
\<close>

type_synonym path = "string list"

definition path_str :: "path \<Rightarrow> string" where
  "path_str p =
     (case p of [] \<Rightarrow> ''.''
      | x # xs \<Rightarrow> if x = ''/'' \<or> x = ''//'' then x @ str_join ''/'' xs else str_join ''/'' p)"

definition path_name :: "path \<Rightarrow> string" where
  "path_name p =
     (case rev p of [] \<Rightarrow> []
      | n # ns \<Rightarrow> if ns = [] \<and> (n = ''/'' \<or> n = ''//'') then [] else n)"

definition path_suffix :: "path \<Rightarrow> string" where
  "path_suffix p =
     (let name = path_name p in
      case rfind CHR ''.'' name of
        None \<Rightarrow> []
      | Some i \<Rightarrow> if 0 < i \<and> i < length name - 1 then drop i name else [])"

definition path_stem :: "path \<Rightarrow> string" where
  "path_stem p =
     (let name = path_name p in
      case rfind CHR ''.'' name of
        None \<Rightarrow> name
      | Some i \<Rightarrow> if 0 < i \<and> i < length name - 1 then take i name else name)"

text \<open>\<open>output_dir / name\<close>, for a \<open>name\<close> that is a single relative part.\<close>

definition path_join :: "path \<Rightarrow> string \<Rightarrow> path" where
  "path_join d n = d @ [n]"

text \<open>
  The operating system is outside the repository. A file system is its state \<open>disk\<close>,
  of any type, together with what each call the program makes returns or raises in a
  state and the state it leaves:
  \<^item> \<open>os_open_rb\<close>: \<open>open(p, "rb")\<close> and \<open>read()\<close>, the bytes or the exception;
  \<^item> \<open>os_mkdir\<close>: \<open>p.mkdir(parents=True, exist_ok=True)\<close>;
  \<^item> \<open>os_write\<close>: opening \<open>p\<close> for writing as UTF-8 text, writing the text and closing;
  \<^item> \<open>os_exists\<close> and \<open>os_is_file\<close>: \<open>p.exists()\<close> and \<open>p.is_file()\<close>.

  A call that writes returns \<open>None\<close> or the exception raised, and the new state in both
  cases: a failed call may leave directories behind, or a file that is empty or cut
  short. Nothing is assumed about when a call fails or with which exception.
\<close>

record 'd filesystem =
  disk :: 'd
  os_open_rb :: "'d \<Rightarrow> path \<Rightarrow> error + string"
  os_mkdir :: "'d \<Rightarrow> path \<Rightarrow> error option \<times> 'd"
  os_write :: "'d \<Rightarrow> path \<Rightarrow> string \<Rightarrow> error option \<times> 'd"
  os_exists :: "'d \<Rightarrow> path \<Rightarrow> bool"
  os_is_file :: "'d \<Rightarrow> path \<Rightarrow> bool"

definition open_rb :: "'d filesystem \<Rightarrow> path \<Rightarrow> error + string" where
  "open_rb f p = os_open_rb f (disk f) p"

definition mkdir_parents :: "'d filesystem \<Rightarrow> path \<Rightarrow> error option \<times> 'd filesystem" where
  "mkdir_parents f d = (case os_mkdir f (disk f) d of (r, s) \<Rightarrow> (r, f\<lparr>disk := s\<rparr>))"

definition write_text :: "'d filesystem \<Rightarrow> path \<Rightarrow> string \<Rightarrow> error option \<times> 'd filesystem" where
  "write_text f p body = (case os_write f (disk f) p body of (r, s) \<Rightarrow> (r, f\<lparr>disk := s\<rparr>))"

definition path_exists :: "'d filesystem \<Rightarrow> path \<Rightarrow> bool" where
  "path_exists f p = os_exists f (disk f) p"

definition path_is_file :: "'d filesystem \<Rightarrow> path \<Rightarrow> bool" where
  "path_is_file f p = os_is_file f (disk f) p"

section \<open>base.py\<close>

record OCRResult =
  content :: string
  metadata :: metadata
  output_path :: "path option"

text \<open>
  \<open>BaseOCRService\<close>: the two abstract members. A call of \<open>process_file\<close> takes the
  state of the world (file system and remote service) and returns the new one, with
  either the exception it raised or its result. \<open>'k\<close> is the type of \<open>**kwargs\<close>.
\<close>

record ('w, 'k) BaseOCRService =
  provider_name :: string
  process_file :: "'w \<Rightarrow> path \<Rightarrow> path option \<Rightarrow> 'k \<Rightarrow> (error + OCRResult) \<times> 'w"

text \<open>The failed result built in the \<open>except\<close> branch of \<open>process_files\<close>.\<close>

definition failed_result :: "string \<Rightarrow> error \<Rightarrow> path \<Rightarrow> OCRResult" where
  "failed_result provider e file_path =
     \<lparr>content = [],
      metadata = [(''error'', JStr (exc_str e)),
                  (''provider'', JStr provider),
                  (''source_file'', JStr (path_str file_path)),
                  (''success'', JBool False)],
      output_path = None\<rparr>"

text \<open>The \<open>for\<close> loop of \<open>process_files\<close>, with \<open>results\<close> as it grows.\<close>

fun process_files_loop ::
  "('w, 'k) BaseOCRService \<Rightarrow> path option \<Rightarrow> 'k \<Rightarrow> OCRResult list \<Rightarrow> path list \<Rightarrow> 'w
     \<Rightarrow> OCRResult list \<times> 'w" where
  "process_files_loop self output_dir kwargs results [] w = (results, w)"
| "process_files_loop self output_dir kwargs results (file_path # rest) w =
     (case process_file self w file_path output_dir kwargs of
        (Inr result, w') \<Rightarrow>
          process_files_loop self output_dir kwargs (results @ [result]) rest w'
      | (Inl e, w') \<Rightarrow>
          process_files_loop self output_dir kwargs
            (results @ [failed_result (provider_name self) e file_path]) rest w')"

definition process_files ::
  "('w, 'k) BaseOCRService \<Rightarrow> 'w \<Rightarrow> path list \<Rightarrow> path option \<Rightarrow> 'k \<Rightarrow> OCRResult list \<times> 'w" where
  "process_files self w file_paths output_dir kwargs =
     process_files_loop self output_dir kwargs [] file_paths w"

section \<open>mistral.py\<close>

text \<open>
  The Mistral SDK is outside the repository: the three calls the service makes are
  parameters. Each takes the state \<open>'r\<close> of the remote service and returns the new one,
  with the exception raised or the value returned: \<open>files.upload\<close> (file name, content;
  the purpose is always \<open>"ocr"\<close>) returns the id of the uploaded file,
  \<open>files.get_signed_url\<close> the URL, \<open>ocr.process\<close> (model, document,
  include_image_base64) the paged response.
\<close>

datatype document = ImageUrl string | DocumentUrl string

record OCRPage =
  markdown :: string

record OCRResponse =
  pages :: "OCRPage list"

record 'r Mistral =
  files_upload :: "'r \<Rightarrow> string \<Rightarrow> string \<Rightarrow> (error + string) \<times> 'r"
  files_get_signed_url :: "'r \<Rightarrow> string \<Rightarrow> (error + string) \<times> 'r"
  ocr_process :: "'r \<Rightarrow> string \<Rightarrow> document \<Rightarrow> bool \<Rightarrow> (error + OCRResponse) \<times> 'r"

record ('d, 'r) world =
  fs :: "'d filesystem"
  remote :: 'r

record 'r MistralOCRService =
  model :: string
  api_key :: string
  client :: "'r Mistral"

text \<open>
  \<open>__init__\<close>: \<open>environ\<close> is \<open>os.environ\<close>, \<open>new_client\<close> is the SDK's constructor
  \<open>Mistral(api_key=...)\<close>. \<open>a or b\<close> is \<open>b\<close> when \<open>a\<close> is \<open>None\<close> or empty, and
  \<open>not key\<close> holds for \<open>None\<close> and for the empty string.
\<close>

definition default_model :: string where
  "default_model = ''mistral-ocr-latest''"

definition MistralOCRService_init ::
  "string option \<Rightarrow> string \<Rightarrow> (string \<rightharpoonup> string) \<Rightarrow> (string \<Rightarrow> error + 'r Mistral)
     \<Rightarrow> error + 'r MistralOCRService" where
  "MistralOCRService_init api_key_arg model_arg environ new_client =
     (let key = (if api_key_arg = None \<or> api_key_arg = Some [] then environ ''MISTRAL_API_KEY''
                 else api_key_arg)
      in case key of
           None \<Rightarrow> Inl (Exc ValueError
                     ''MISTRAL_API_KEY environment variable must be set or api_key provided'')
         | Some k \<Rightarrow>
             if k = [] then Inl (Exc ValueError
                     ''MISTRAL_API_KEY environment variable must be set or api_key provided'')
             else (case new_client k of
                     Inl e \<Rightarrow> Inl (Exc RuntimeError
                                (''Error initializing Mistral client: '' @ exc_str e))
                   | Inr c \<Rightarrow> Inr \<lparr>model = model_arg, api_key = k, client = c\<rparr>))"

definition Mistral_provider_name :: string where
  "Mistral_provider_name = ''mistral''"

definition image_extensions :: "string set" where
  "image_extensions =
     {''.png'', ''.jpg'', ''.jpeg'', ''.avif'', ''.gif'', ''.bmp'', ''.tiff'', ''.tif''}"

definition is_image_file :: "path \<Rightarrow> bool" where
  "is_image_file file_path = (str_lower (path_suffix file_path) \<in> image_extensions)"

definition encode_file_to_base64 :: "'d filesystem \<Rightarrow> path \<Rightarrow> error + string" where
  "encode_file_to_base64 f file_path =
     (case open_rb f file_path of
        Inr bytes \<Rightarrow> Inr (b64encode bytes)
      | Inl e \<Rightarrow>
          if exc_class e = FileNotFoundError
          then Inl (Exc FileNotFoundError (''File not found: '' @ path_str file_path))
          else Inl (Exc RuntimeError
                 (''Error encoding file '' @ path_str file_path @ '': '' @ exc_str e)))"

definition extract_content_from_response :: "OCRResponse \<Rightarrow> string" where
  "extract_content_from_response ocr_response =
     str_join [CHR 0x0A, CHR 0x0A] (map markdown (pages ocr_response))"

definition create_metadata ::
  "'r MistralOCRService \<Rightarrow> OCRResponse \<Rightarrow> path \<Rightarrow> bool \<Rightarrow> metadata" where
  "create_metadata self ocr_response source_path include_image_base64 =
     (let md = [(''scheme'', JStr ''mistral_ocr''),
                (''provider'', JStr Mistral_provider_name),
                (''model'', JStr (model self)),
                (''source_file'', JStr (path_str source_path)),
                (''include_image_base64'', JBool include_image_base64)]
      in if pages ocr_response \<noteq> [] then
           (if length (pages ocr_response) > 0
            then AList.update ''pages'' (JInt (int (length (pages ocr_response)))) md
            else md)
         else md)"

text \<open>
  \<open>process_file\<close>, first part (``Determine document type and prepare data''): the
  request payload, inline for an image, a signed URL of the uploaded file otherwise.
\<close>

definition prepare_document ::
  "'r MistralOCRService \<Rightarrow> ('d, 'r) world \<Rightarrow> path \<Rightarrow> (error + document) \<times> ('d, 'r) world" where
  "prepare_document self w file_path =
     (if is_image_file file_path then
        (case encode_file_to_base64 (fs w) file_path of
           Inl e \<Rightarrow> (Inl e, w)
         | Inr base64_data \<Rightarrow>
             let mime_type = ''image/'' @ lstrip_dot (str_lower (path_suffix file_path));
                 mime_type = (if mime_type = ''image/jpg'' then ''image/jpeg'' else mime_type)
             in (Inr (ImageUrl (''data:'' @ mime_type @ '';base64,'' @ base64_data)), w))
      else
        (case open_rb (fs w) file_path of
           Inl e \<Rightarrow> (Inl e, w)
         | Inr file \<Rightarrow>
             (case files_upload (client self) (remote w) (path_name file_path) file of
                (Inl e, r1) \<Rightarrow> (Inl e, w\<lparr>remote := r1\<rparr>)
              | (Inr uploaded_file_id, r1) \<Rightarrow>
                  (case files_get_signed_url (client self) r1 uploaded_file_id of
                     (Inl e, r2) \<Rightarrow> (Inl e, w\<lparr>remote := r2\<rparr>)
                   | (Inr signed_url, r2) \<Rightarrow>
                       (Inr (DocumentUrl signed_url), w\<lparr>remote := r2\<rparr>)))))"

text \<open>
  \<open>process_file\<close>, last part (``Save to files if output_dir is specified''). A
  \<open>Path\<close> is always true, so \<open>if output_dir\<close> tests for \<open>None\<close>. \<open>json.dump\<close> into the
  opened metadata file is the write of the text \<open>json_dumps\<close> gives. An exception
  leaves the file system as the failed call left it.
\<close>

definition save_output ::
  "'d filesystem \<Rightarrow> path \<Rightarrow> path option \<Rightarrow> string \<Rightarrow> metadata
     \<Rightarrow> (error + path option) \<times> 'd filesystem" where
  "save_output f file_path output_dir body md =
     (case output_dir of
        None \<Rightarrow> (Inr None, f)
      | Some d \<Rightarrow>
          (case mkdir_parents f d of
             (Some e, f1) \<Rightarrow> (Inl e, f1)
           | (None, f1) \<Rightarrow>
               let out = path_join d (path_stem file_path @ ''.ocr.md'') in
               (case write_text f1 out body of
                  (Some e, f2) \<Rightarrow> (Inl e, f2)
                | (None, f2) \<Rightarrow>
                    let metadata_path = path_join d (path_stem file_path @ ''.ocr.json'') in
                    (case write_text f2 metadata_path (json_dumps md) of
                       (Some e, f3) \<Rightarrow> (Inl e, f3)
                     | (None, f3) \<Rightarrow> (Inr (Some out), f3)))))"

text \<open>
  \<open>process_file\<close>. The only keyword option the service reads is
  \<open>include_image_base64\<close>; the others are ignored, so \<open>**kwargs\<close> is that flag.
\<close>

definition Mistral_process_file ::
  "'r MistralOCRService \<Rightarrow> ('d, 'r) world \<Rightarrow> path \<Rightarrow> path option \<Rightarrow> bool
     \<Rightarrow> (error + OCRResult) \<times> ('d, 'r) world" where
  "Mistral_process_file self w file_path output_dir include_image_base64 =
     (case prepare_document self w file_path of
        (Inl e, w1) \<Rightarrow> (Inl e, w1)
      | (Inr doc, w1) \<Rightarrow>
          (case ocr_process (client self) (remote w1) (model self) doc include_image_base64 of
             (Inl e, r2) \<Rightarrow> (Inl e, w1\<lparr>remote := r2\<rparr>)
           | (Inr ocr_response, r2) \<Rightarrow>
               let text = extract_content_from_response ocr_response;
                   md = create_metadata self ocr_response file_path include_image_base64
               in (case save_output (fs w1) file_path output_dir text md of
                     (Inl e, f') \<Rightarrow> (Inl e, \<lparr>fs = f', remote = r2\<rparr>)
                   | (Inr out, f') \<Rightarrow>
                       (Inr \<lparr>content = text, metadata = md, output_path = out\<rparr>,
                        \<lparr>fs = f', remote = r2\<rparr>))))"

text \<open>The service as an instance of the base class; \<open>process_files\<close> is inherited.\<close>

definition Mistral_service ::
  "'r MistralOCRService \<Rightarrow> (('d, 'r) world, bool) BaseOCRService" where
  "Mistral_service self =
     \<lparr>provider_name = Mistral_provider_name, process_file = Mistral_process_file self\<rparr>"

section \<open>__main__.py\<close>

text \<open>
  The \<open>ocr\<close> command without its console output: the validation of the input files,
  the construction of the service from the environment, the batch. It ends with an
  exit code (\<open>typer.Exit\<close>), with nothing to do, or with the results of the batch.
\<close>

datatype outcome = Exit nat | NoFiles | Processed "OCRResult list"

fun validate_files :: "'d filesystem \<Rightarrow> path list \<Rightarrow> path list option" where
  "validate_files f [] = Some []"
| "validate_files f (file_path # rest) =
     (if \<not> path_exists f file_path then None
      else if \<not> path_is_file f file_path then None
      else map_option ((#) file_path) (validate_files f rest))"

definition ocr ::
  "(string \<rightharpoonup> string) \<Rightarrow> (string \<Rightarrow> error + 'r Mistral) \<Rightarrow> ('d, 'r) world \<Rightarrow> path list
     \<Rightarrow> path \<Rightarrow> string \<Rightarrow> bool \<Rightarrow> outcome \<times> ('d, 'r) world" where
  "ocr environ new_client w files output_dir model_arg include_image_base64 =
     (case validate_files (fs w) files of
        None \<Rightarrow> (Exit 1, w)
      | Some valid_files \<Rightarrow>
          if valid_files = [] then (NoFiles, w)
          else (case MistralOCRService_init None model_arg environ new_client of
                  Inl e \<Rightarrow> (Exit 1, w)
                | Inr service \<Rightarrow>
                    (case process_files (Mistral_service service) w valid_files
                            (Some output_dir) include_image_base64 of
                       (results, w') \<Rightarrow> (Processed results, w'))))"

section \<open>An example file system and service\<close>

text \<open>
  A small file system for the examples: a table from paths to a regular file with its
  bytes, a directory, or a regular file the process may not open. Its names and texts
  are ASCII. The text of an error quotes the path as \<open>repr\<close> does for ASCII strings.
\<close>

datatype node = File string | Dir | Locked

definition repr_char :: "char \<Rightarrow> char \<Rightarrow> string" where
  "repr_char q c =
     (let n = (of_char c :: nat) in
      if c = q \<or> c = CHR 0x5C then [CHR 0x5C, c]
      else if n = 10 then [CHR 0x5C, CHR ''n'']
      else if n = 13 then [CHR 0x5C, CHR ''r'']
      else if n = 9 then [CHR 0x5C, CHR ''t'']
      else if n < 32 \<or> n = 127 then [CHR 0x5C, CHR ''x'', hex_digit (n div 16), hex_digit n]
      else [c])"

definition py_repr :: "string \<Rightarrow> string" where
  "py_repr s =
     (let q = (if CHR 0x27 \<in> set s \<and> CHR 0x22 \<notin> set s then CHR 0x22 else CHR 0x27)
      in [q] @ concat (map (repr_char q) s) @ [q])"

definition os_error :: "exc_class \<Rightarrow> string \<Rightarrow> path \<Rightarrow> error" where
  "os_error cls msg p = Exc cls (msg @ '': '' @ py_repr (path_str p))"

text \<open>The path itself and its ancestors, outermost first; the empty path is the current
  directory, which exists.\<close>

definition ancestors :: "path \<Rightarrow> path list" where
  "ancestors d = map (\<lambda>n. take n d) [1..<Suc (length d)]"

definition example_open_rb :: "(path \<rightharpoonup> node) \<Rightarrow> path \<Rightarrow> error + string" where
  "example_open_rb t p =
     (case t p of
        Some (File bytes) \<Rightarrow> Inr bytes
      | Some Dir \<Rightarrow> Inl (os_error IsADirectoryError ''[Errno 21] Is a directory'' p)
      | Some Locked \<Rightarrow> Inl (os_error PermissionError ''[Errno 13] Permission denied'' p)
      | None \<Rightarrow>
          if \<exists>q \<in> set (butlast (ancestors p)). t q \<noteq> None \<and> t q \<noteq> Some Dir
          then Inl (os_error NotADirectoryError ''[Errno 20] Not a directory'' p)
          else Inl (os_error FileNotFoundError ''[Errno 2] No such file or directory'' p))"

text \<open>Making a directory and its parents fails when the path or one of its ancestors
  is a file, and makes the missing directories otherwise.\<close>

definition example_mkdir :: "(path \<rightharpoonup> node) \<Rightarrow> path \<Rightarrow> error option \<times> (path \<rightharpoonup> node)" where
  "example_mkdir t d =
     (case find (\<lambda>q. t q \<noteq> None \<and> t q \<noteq> Some Dir) (ancestors d) of
        Some q \<Rightarrow>
          if q = d then (Some (os_error FileExistsError ''[Errno 17] File exists'' d), t)
          else (Some (os_error NotADirectoryError ''[Errno 20] Not a directory'' d), t)
      | None \<Rightarrow> (None, (\<lambda>q. if q \<in> set (ancestors d) then Some Dir else t q)))"

text \<open>Writing creates the file or replaces its bytes; it fails on a directory and on a
  file the process may not open.\<close>

definition example_write ::
  "(path \<rightharpoonup> node) \<Rightarrow> path \<Rightarrow> string \<Rightarrow> error option \<times> (path \<rightharpoonup> node)" where
  "example_write t p body =
     (case t p of
        Some Dir \<Rightarrow> (Some (os_error IsADirectoryError ''[Errno 21] Is a directory'' p), t)
      | Some Locked \<Rightarrow> (Some (os_error PermissionError ''[Errno 13] Permission denied'' p), t)
      | _ \<Rightarrow> (None, t(p \<mapsto> File body)))"

definition example_disk :: "path \<rightharpoonup> node" where
  "example_disk =
     [[''in'', ''a.pdf''] \<mapsto> File ''%PDF'',
      [''in'', ''b.png''] \<mapsto> File ''hi'',
      [''in'', ''c.png''] \<mapsto> Locked,
      [''in'', ''empty.pdf''] \<mapsto> File [],
      [''in'', ''expired.pdf''] \<mapsto> File ''%PDF'',
      [''in''] \<mapsto> Dir,
      [''old'', ''a.txt''] \<mapsto> File ''text'',
      [''old''] \<mapsto> Dir]"

definition example_fs :: "(path \<rightharpoonup> node) filesystem" where
  "example_fs =
     \<lparr>disk = example_disk,
      os_open_rb = example_open_rb,
      os_mkdir = example_mkdir,
      os_write = example_write,
      os_exists = (\<lambda>t p. t p \<noteq> None),
      os_is_file = (\<lambda>t p. t p \<noteq> None \<and> t p \<noteq> Some Dir)\<rparr>"

text \<open>
  A remote service whose state counts the calls made to it. It rejects the upload of
  an empty file, signs a URL for every file id but \<open>''id-expired.pdf''\<close>, rejects the
  model \<open>''none''\<close>, and answers every other OCR request on a document URL with two
  pages and on an inline image with one.
\<close>

definition example_client :: "nat Mistral" where
  "example_client =
     \<lparr>files_upload = (\<lambda>r file_name bytes.
         if bytes = [] then (Inl (Exc SDKError ''Status 422: empty file''), Suc r)
         else (Inr (''id-'' @ file_name), Suc r)),
      files_get_signed_url = (\<lambda>r file_id.
         if file_id = ''id-expired.pdf'' then (Inl (Exc SDKError ''Status 404: no such file''), Suc r)
         else (Inr (''https://files.example/'' @ file_id), Suc r)),
      ocr_process = (\<lambda>r m doc incl.
         if m = ''none'' then (Inl (Exc SDKError ''Status 400: invalid model''), Suc r)
         else (case doc of
                 DocumentUrl u \<Rightarrow>
                   (Inr \<lparr>pages = [\<lparr>markdown = ''# Title''\<rparr>, \<lparr>markdown = ''Body''\<rparr>]\<rparr>, Suc r)
               | ImageUrl u \<Rightarrow> (Inr \<lparr>pages = [\<lparr>markdown = ''Scan''\<rparr>]\<rparr>, Suc r)))\<rparr>"

definition example_service :: "nat MistralOCRService" where
  "example_service = \<lparr>model = default_model, api_key = ''key'', client = example_client\<rparr>"

definition example_world :: "(path \<rightharpoonup> node, nat) world" where
  "example_world = \<lparr>fs = example_fs, remote = 0\<rparr>"

section \<open>Notions used in the statements\<close>

text \<open>The result that one iteration of the loop appends.\<close>

definition item_result ::
  "('w, 'k) BaseOCRService \<Rightarrow> 'w \<Rightarrow> path \<Rightarrow> path option \<Rightarrow> 'k \<Rightarrow> OCRResult" where
  "item_result self w file_path output_dir kwargs =
     (case fst (process_file self w file_path output_dir kwargs) of
        Inr result \<Rightarrow> result
      | Inl e \<Rightarrow> failed_result (provider_name self) e file_path)"

text \<open>
  The text of a paged response as the specification words it: the texts of the pages
  in page order, a blank line (two newlines) before every page but the first.
\<close>

definition blank_line_joined :: "string list \<Rightarrow> string" where
  "blank_line_joined texts =
     (case texts of
        [] \<Rightarrow> []
      | t # rest \<Rightarrow> t @ concat (map (\<lambda>u. [CHR 0x0A, CHR 0x0A] @ u) rest))"















text \<open>
  A file system reads back what was written to \<open>a\<close> and to \<open>b\<close>: after a successful
  write to one of them, reading it gives the text written, and a write to \<open>b\<close> leaves
  what reading \<open>a\<close> gives as it was (the two are not the same file under two names).
\<close>

definition reads_back :: "'d filesystem \<Rightarrow> path \<Rightarrow> path \<Rightarrow> bool" where
  "reads_back f a b =
     ((\<forall>s body s'. os_write f s a body = (None, s') \<longrightarrow> os_open_rb f s' a = Inr body) \<and>
      (\<forall>s body s'. os_write f s b body = (None, s') \<longrightarrow>
         os_open_rb f s' b = Inr body \<and> os_open_rb f s' a = os_open_rb f s a))"

text \<open>A failure marker in a metadata dictionary: the key \<open>success\<close> with the value
  \<open>False\<close>, or the key \<open>error\<close>. The invariant of a result: a failure marker comes
  with empty content and no output path.\<close>

definition has_failure_marker :: "metadata \<Rightarrow> bool" where
  "has_failure_marker md =
     (map_of md ''success'' = Some (JBool False) \<or> map_of md ''error'' \<noteq> None)"

definition result_invariant :: "OCRResult \<Rightarrow> bool" where
  "result_invariant r =
     (has_failure_marker (metadata r) \<longrightarrow> content r = [] \<and> output_path r = None)"

text \<open>A deterministic remote service: what a call returns or raises depends on the
  request, not on the state of the service.\<close>

definition remote_deterministic :: "'r Mistral \<Rightarrow> bool" where
  "remote_deterministic c =
     ((\<forall>r r' file_name bytes.
         fst (files_upload c r file_name bytes) = fst (files_upload c r' file_name bytes)) \<and>
      (\<forall>r r' file_id.
         fst (files_get_signed_url c r file_id) = fst (files_get_signed_url c r' file_id)) \<and>
      (\<forall>r r' m doc incl.
         fst (ocr_process c r m doc incl) = fst (ocr_process c r' m doc incl)))"

section \<open>Properties of the batch operation\<close>

lemma process_files_loop_acc:
  "process_files_loop self out kw acc ps w =
     (acc @ fst (process_files_loop self out kw [] ps w),
      snd (process_files_loop self out kw [] ps w))"
proof (induction ps arbitrary: acc w)
  case Nil
  show ?case by simp
next
  case (Cons p ps)
  obtain res w' where call: "process_file self w p out kw = (res, w')"
    by (cases "process_file self w p out kw")
  show ?case
  proof (cases res)
    case (Inl e)
    with call Cons.IH [of "acc @ [failed_result (provider_name self) e p]" w']
      Cons.IH [of "[failed_result (provider_name self) e p]" w']
    show ?thesis by simp
  next
    case (Inr r)
    with call Cons.IH [of "acc @ [r]" w'] Cons.IH [of "[r]" w']
    show ?thesis by simp
  qed
qed

lemma process_files_Nil: "process_files self w [] out kw = ([], w)"
  by (simp add: process_files_def)

lemma process_files_Cons:
  "process_files self w (p # ps) out kw =
     (item_result self w p out kw #
        fst (process_files self (snd (process_file self w p out kw)) ps out kw),
      snd (process_files self (snd (process_file self w p out kw)) ps out kw))"
proof -
  obtain res w' where call: "process_file self w p out kw = (res, w')"
    by (cases "process_file self w p out kw")
  show ?thesis
    using call process_files_loop_acc [of self out kw "[item_result self w p out kw]" ps w']
    by (cases res) (simp_all add: process_files_def item_result_def)
qed

lemma process_files_length: "length (fst (process_files self w ps out kw)) = length ps"
  by (induction ps arbitrary: w) (simp_all add: process_files_Nil process_files_Cons)

lemma process_files_append:
  "process_files self w (xs @ ys) out kw =
     (fst (process_files self w xs out kw) @
        fst (process_files self (snd (process_files self w xs out kw)) ys out kw),
      snd (process_files self (snd (process_files self w xs out kw)) ys out kw))"
  by (induction xs arbitrary: w) (simp_all add: process_files_Nil process_files_Cons)

lemma process_files_nth:
  assumes "i < length ps"
  shows "fst (process_files self w ps out kw) ! i =
           item_result self (snd (process_files self w (take i ps) out kw)) (ps ! i) out kw"
proof -
  have split: "ps = take i ps @ ps ! i # drop (Suc i) ps"
    using assms by (simp add: id_take_nth_drop)
  have len: "length (fst (process_files self w (take i ps) out kw)) = i"
    using assms by (simp add: process_files_length)
  have "fst (process_files self w ps out kw) ! i =
        fst (process_files self w (take i ps @ ps ! i # drop (Suc i) ps) out kw) ! i"
    using split by simp
  also have "\<dots> = item_result self (snd (process_files self w (take i ps) out kw)) (ps ! i) out kw"
    by (simp add: process_files_append process_files_Cons nth_append len)
  finally show ?thesis .
qed

text \<open>
  C1: \<open>process_files\<close> returns one result per input path, in input order: the result at
  position \<open>i\<close> is the one produced by the call of \<open>process_file\<close> on the path at
  position \<open>i\<close> (its result, or the failed result when it raised), made in the state
  the calls on the earlier paths left, whichever of them raised.
\<close>

theorem process_files_one_result_per_path:
  "length (fst (process_files self w file_paths output_dir kwargs)) = length file_paths \<and>
   (\<forall>i < length file_paths.
      fst (process_files self w file_paths output_dir kwargs) ! i =
        (case fst (process_file self
                     (snd (process_files self w (take i file_paths) output_dir kwargs))
                     (file_paths ! i) output_dir kwargs) of
           Inr result \<Rightarrow> result
         | Inl e \<Rightarrow> failed_result (provider_name self) e (file_paths ! i)))"
  using process_files_nth [of _ file_paths self w output_dir kwargs]
  by (simp add: process_files_length item_result_def)


theorem process_files_one_result_per_path_witness:
  "length (fst (process_files (Mistral_service example_service) example_world
             [[''in'', ''zz.pdf''], [''in'', ''c.png''], [''in'', ''a.pdf'']] None False)) = 3 \<and>
   fst (process_files (Mistral_service example_service) example_world
          [[''in'', ''zz.pdf''], [''in'', ''c.png''], [''in'', ''a.pdf'']] None False) ! 2 =
     \<lparr>content = ''# Title'' @ [CHR 0x0A, CHR 0x0A] @ ''Body'',
      metadata = [(''scheme'', JStr ''mistral_ocr''), (''provider'', JStr ''mistral''),
                  (''model'', JStr ''mistral-ocr-latest''), (''source_file'', JStr ''in/a.pdf''),
                  (''include_image_base64'', JBool False), (''pages'', JInt 2)],
      output_path = None\<rparr>"
proof -
  let ?svc = "Mistral_service example_service"
  let ?ps = "[[''in'', ''zz.pdf''], [''in'', ''c.png''], [''in'', ''a.pdf'']]"
  have call: "fst (process_file ?svc (snd (process_files ?svc example_world (take 2 ?ps) None False))
                    (?ps ! 2) None False) =
              Inr \<lparr>content = ''# Title'' @ [CHR 0x0A, CHR 0x0A] @ ''Body'',
                   metadata = [(''scheme'', JStr ''mistral_ocr''), (''provider'', JStr ''mistral''),
                     (''model'', JStr ''mistral-ocr-latest''), (''source_file'', JStr ''in/a.pdf''),
                     (''include_image_base64'', JBool False), (''pages'', JInt 2)],
                   output_path = None\<rparr>"
    by code_simp
  have "(2::nat) < length ?ps" by simp
  with process_files_one_result_per_path [of ?svc example_world ?ps None False] call
  show ?thesis by simp
qed

text \<open>
  C2: when the call of \<open>process_file\<close> on the path at position \<open>i\<close> raises \<open>e\<close>, the
  result at position \<open>i\<close> has empty content, no output path, and a metadata
  dictionary with \<open>str(e)\<close> under \<open>error\<close>, the provider name, the source path and
  \<open>success\<close> set to \<open>False\<close>.
\<close>

theorem process_files_failed_result:
  assumes "i < length file_paths"
    and "fst (process_file self
                (snd (process_files self w (take i file_paths) output_dir kwargs))
                (file_paths ! i) output_dir kwargs) = Inl e"
  shows "content (fst (process_files self w file_paths output_dir kwargs) ! i) = [] \<and>
         output_path (fst (process_files self w file_paths output_dir kwargs) ! i) = None \<and>
         metadata (fst (process_files self w file_paths output_dir kwargs) ! i) =
           [(''error'', JStr (exc_str e)),
            (''provider'', JStr (provider_name self)),
            (''source_file'', JStr (path_str (file_paths ! i))),
            (''success'', JBool False)]"
  using assms process_files_nth [of i file_paths self w output_dir kwargs]
  by (simp add: item_result_def failed_result_def)

theorem process_files_failed_result_witness:
  "content (fst (process_files (Mistral_service example_service) example_world
             [[''in'', ''a.pdf''], [''in'', ''c.png''], [''in'', ''b.png'']] None False) ! 1) = [] \<and>
   output_path (fst (process_files (Mistral_service example_service) example_world
             [[''in'', ''a.pdf''], [''in'', ''c.png''], [''in'', ''b.png'']] None False) ! 1) = None \<and>
   metadata (fst (process_files (Mistral_service example_service) example_world
             [[''in'', ''a.pdf''], [''in'', ''c.png''], [''in'', ''b.png'']] None False) ! 1) =
     [(''error'', JStr (''Error encoding file in/c.png: [Errno 13] Permission denied: '' @
                        [CHR 0x27] @ ''in/c.png'' @ [CHR 0x27])),
      (''provider'', JStr ''mistral''),
      (''source_file'', JStr ''in/c.png''),
      (''success'', JBool False)]"
proof -
  let ?svc = "Mistral_service example_service"
  let ?ps = "[[''in'', ''a.pdf''], [''in'', ''c.png''], [''in'', ''b.png'']]"
  let ?e = "Exc RuntimeError (''Error encoding file in/c.png: [Errno 13] Permission denied: '' @
                        [CHR 0x27] @ ''in/c.png'' @ [CHR 0x27])"
  have raised: "fst (process_file ?svc (snd (process_files ?svc example_world (take 1 ?ps) None False))
                    (?ps ! 1) None False) = Inl ?e"
    by code_simp
  have bound: "(1::nat) < length ?ps" by simp
  have name: "provider_name ?svc = ''mistral''"
    by (simp add: Mistral_service_def Mistral_provider_name_def)
  have src: "path_str (?ps ! 1) = ''in/c.png''"
    by (simp add: path_str_def)
  show ?thesis
    using process_files_failed_result [OF bound raised] name src by simp
qed

section \<open>Properties of the single-file operation\<close>

lemma str_join_concat:
  "str_join sep ts = (case ts of [] \<Rightarrow> [] | t # rest \<Rightarrow> t @ concat (map (\<lambda>u. sep @ u) rest))"
  by (induction sep ts rule: str_join.induct) simp_all

lemma prepare_document_fs: "fs (snd (prepare_document self w p)) = fs w"
  by (simp add: prepare_document_def Let_def split: sum.splits prod.splits)

text \<open>A call of \<open>process_file\<close> that returns went through each of its steps.\<close>

lemma process_file_returns:
  assumes "Mistral_process_file self w p out incl = (Inr res, w')"
  obtains doc w1 resp r2 where
    "prepare_document self w p = (Inr doc, w1)"
    "ocr_process (client self) (remote w1) (model self) doc incl = (Inr resp, r2)"
    "save_output (fs w) p out (extract_content_from_response resp)
       (create_metadata self resp p incl) = (Inr (output_path res), fs w')"
    "content res = extract_content_from_response resp"
    "metadata res = create_metadata self resp p incl"
    "remote w' = r2"
proof -
  obtain pd w1 where pd: "prepare_document self w p = (pd, w1)"
    by (cases "prepare_document self w p")
  have fs1: "fs w1 = fs w"
    using prepare_document_fs [of self w p] pd by simp
  from assms pd obtain doc where doc: "pd = Inr doc"
    by (cases pd) (simp_all add: Mistral_process_file_def)
  obtain oc r2 where oc: "ocr_process (client self) (remote w1) (model self) doc incl = (oc, r2)"
    by (cases "ocr_process (client self) (remote w1) (model self) doc incl")
  from assms pd doc oc obtain resp where resp: "oc = Inr resp"
    by (cases oc) (simp_all add: Mistral_process_file_def)
  obtain sv f' where sv: "save_output (fs w) p out (extract_content_from_response resp)
       (create_metadata self resp p incl) = (sv, f')"
    by (cases "save_output (fs w) p out (extract_content_from_response resp)
       (create_metadata self resp p incl)")
  from assms pd doc oc resp sv fs1 obtain o' where o': "sv = Inr o'"
    by (cases sv) (simp_all add: Mistral_process_file_def Let_def)
  from assms pd doc oc resp sv fs1 o'
  have "res = \<lparr>content = extract_content_from_response resp,
               metadata = create_metadata self resp p incl, output_path = o'\<rparr>"
    and "w' = \<lparr>fs = f', remote = r2\<rparr>"
    by (simp_all add: Mistral_process_file_def Let_def)
  with pd doc oc resp sv o' that show thesis by simp
qed


lemma create_metadata_keys:
  "map_of (create_metadata self resp p incl) ''error'' = None"
  "map_of (create_metadata self resp p incl) ''success'' = None"
  by (simp_all add: create_metadata_def Let_def update_conv')

text \<open>
  C8: the content of a result is the text of the pages of the response, in page
  order, joined by a blank line; a response without pages gives the empty string.
\<close>

theorem content_is_pages_joined:
  "extract_content_from_response resp = blank_line_joined (map markdown (pages resp)) \<and>
   (pages resp = [] \<longrightarrow> extract_content_from_response resp = []) \<and>
   (prepare_document self w p = (Inr doc, w1) \<and>
    ocr_process (client self) (remote w1) (model self) doc incl = (Inr resp, r2) \<and>
    Mistral_process_file self w p out incl = (Inr res, w')
    \<longrightarrow> content res = blank_line_joined (map markdown (pages resp)))"
proof -
  have joined: "extract_content_from_response resp = blank_line_joined (map markdown (pages resp))"
    for resp
    by (simp add: extract_content_from_response_def blank_line_joined_def str_join_concat)
  have empty: "pages resp = [] \<longrightarrow> extract_content_from_response resp = []"
    by (simp add: extract_content_from_response_def)
  have "content res = blank_line_joined (map markdown (pages resp))"
    if prep: "prepare_document self w p = (Inr doc, w1)"
      and call: "ocr_process (client self) (remote w1) (model self) doc incl = (Inr resp, r2)"
      and ret: "Mistral_process_file self w p out incl = (Inr res, w')"
  proof -
    from ret obtain doc' w1' resp' r2' where
      "prepare_document self w p = (Inr doc', w1')"
      "ocr_process (client self) (remote w1') (model self) doc' incl = (Inr resp', r2')"
      "content res = extract_content_from_response resp'"
      by (rule process_file_returns)
    with prep call have "content res = extract_content_from_response resp" by simp
    then show ?thesis by (simp add: joined)
  qed
  with joined [of resp] empty show ?thesis by blast
qed

theorem content_is_pages_joined_witness:
  "fst (Mistral_process_file example_service example_world [''in'', ''a.pdf''] None False) =
     Inr \<lparr>content = ''# Title'' @ [CHR 0x0A, CHR 0x0A] @ ''Body'',
          metadata = [(''scheme'', JStr ''mistral_ocr''), (''provider'', JStr ''mistral''),
                      (''model'', JStr ''mistral-ocr-latest''), (''source_file'', JStr ''in/a.pdf''),
                      (''include_image_base64'', JBool False), (''pages'', JInt 2)],
          output_path = None\<rparr> \<and>
   ''# Title'' @ [CHR 0x0A, CHR 0x0A] @ ''Body'' =
     blank_line_joined (map markdown [\<lparr>markdown = ''# Title''\<rparr>, \<lparr>markdown = ''Body''\<rparr>])"
proof -
  let ?p = "[''in'', ''a.pdf'']"
  let ?doc = "DocumentUrl ''https://files.example/id-a.pdf''"
  let ?resp = "\<lparr>pages = [\<lparr>markdown = ''# Title''\<rparr>, \<lparr>markdown = ''Body''\<rparr>]\<rparr>"
  let ?res = "\<lparr>content = ''# Title'' @ [CHR 0x0A, CHR 0x0A] @ ''Body'',
          metadata = [(''scheme'', JStr ''mistral_ocr''), (''provider'', JStr ''mistral''),
                      (''model'', JStr ''mistral-ocr-latest''), (''source_file'', JStr ''in/a.pdf''),
                      (''include_image_base64'', JBool False), (''pages'', JInt 2)],
          output_path = None\<rparr>"
  let ?w1 = "snd (prepare_document example_service example_world ?p)"
  have "fst (prepare_document example_service example_world ?p) = Inr ?doc"
    by code_simp
  then have prep: "prepare_document example_service example_world ?p = (Inr ?doc, ?w1)"
    by (simp add: prod_eq_iff)
  have call: "ocr_process (client example_service) (remote ?w1) (model example_service) ?doc False =
                (Inr ?resp, 3)"
    by code_simp
  have ret1: "fst (Mistral_process_file example_service example_world ?p None False) = Inr ?res"
    by code_simp
  then have ret: "Mistral_process_file example_service example_world ?p None False =
      (Inr ?res, snd (Mistral_process_file example_service example_world ?p None False))"
    by (simp add: prod_eq_iff)
  from content_is_pages_joined [of ?resp example_service example_world ?p ?doc ?w1 False 3 None ?res
       "snd (Mistral_process_file example_service example_world ?p None False)"] prep call ret
  have "content ?res = blank_line_joined (map markdown (pages ?resp))"
    by blast
  with ret1 show ?thesis by simp
qed

lemma Mistral_service_simps:
  "provider_name (Mistral_service self) = Mistral_provider_name"
  "process_file (Mistral_service self) = Mistral_process_file self"
  by (simp_all add: Mistral_service_def)

lemma failed_result_invariant: "result_invariant (failed_result name e p)"
  by (simp add: result_invariant_def failed_result_def)

lemma process_file_no_marker:
  assumes "Mistral_process_file self w p out incl = (Inr res, w')"
  shows "\<not> has_failure_marker (metadata res)"
proof -
  from assms obtain resp where "metadata res = create_metadata self resp p incl"
    by (rule process_file_returns)
  then show ?thesis
    by (simp add: has_failure_marker_def create_metadata_keys)
qed

text \<open>
  C3: a result returned by \<open>process_file\<close> has no \<open>error\<close> key and no false
  \<open>success\<close> marker in its metadata. Every result of \<open>process_files\<close> satisfies the
  invariant (a failure marker comes with empty content and no output path), and the
  result at the position of a call that returned is that call's result, without a
  failure marker.
\<close>

theorem results_respect_failure_marker:
  "(Mistral_process_file self w p out incl = (Inr res, w') \<longrightarrow>
      map_of (metadata res) ''error'' = None \<and>
      map_of (metadata res) ''success'' \<noteq> Some (JBool False) \<and>
      result_invariant res) \<and>
   (\<forall>i < length ps.
      result_invariant (fst (process_files (Mistral_service self) w ps out incl) ! i) \<and>
      (\<forall>r. fst (Mistral_process_file self
                   (snd (process_files (Mistral_service self) w (take i ps) out incl))
                   (ps ! i) out incl) = Inr r
           \<longrightarrow> fst (process_files (Mistral_service self) w ps out incl) ! i = r \<and>
               \<not> has_failure_marker (metadata r)))"
proof (intro conjI allI impI)
  assume ret: "Mistral_process_file self w p out incl = (Inr res, w')"
  from process_file_no_marker [OF ret]
  show "map_of (metadata res) ''error'' = None"
    and "map_of (metadata res) ''success'' \<noteq> Some (JBool False)"
    and "result_invariant res"
    by (simp_all add: has_failure_marker_def result_invariant_def)
next
  fix i
  assume i: "i < length ps"
  let ?w = "snd (process_files (Mistral_service self) w (take i ps) out incl)"
  let ?call = "Mistral_process_file self ?w (ps ! i) out incl"
  have nth: "fst (process_files (Mistral_service self) w ps out incl) ! i =
               (case fst ?call of Inr result \<Rightarrow> result
                | Inl e \<Rightarrow> failed_result Mistral_provider_name e (ps ! i))"
    using process_files_nth [OF i, of "Mistral_service self" w out incl]
    by (simp add: item_result_def Mistral_service_simps split: sum.splits)
  show "result_invariant (fst (process_files (Mistral_service self) w ps out incl) ! i)"
  proof (cases "fst ?call")
    case (Inl e)
    with nth show ?thesis by (simp add: failed_result_invariant)
  next
    case (Inr r)
    then have "?call = (Inr r, snd ?call)" by (simp add: prod_eq_iff)
    from process_file_no_marker [OF this] nth Inr
    show ?thesis by (simp add: result_invariant_def)
  qed
  fix r
  assume r: "fst ?call = Inr r"
  then have "?call = (Inr r, snd ?call)" by (simp add: prod_eq_iff)
  from process_file_no_marker [OF this] nth r
  show "fst (process_files (Mistral_service self) w ps out incl) ! i = r"
    and "\<not> has_failure_marker (metadata r)"
    by simp_all
qed

theorem results_respect_failure_marker_witness:
  "result_invariant (fst (process_files (Mistral_service example_service) example_world
        [[''in'', ''zz.pdf''], [''in'', ''b.png'']] (Some [''out'']) True) ! 0) \<and>
   has_failure_marker (metadata (fst (process_files (Mistral_service example_service) example_world
        [[''in'', ''zz.pdf''], [''in'', ''b.png'']] (Some [''out'']) True) ! 0)) \<and>
   \<not> has_failure_marker (metadata (fst (process_files (Mistral_service example_service)
        example_world [[''in'', ''zz.pdf''], [''in'', ''b.png'']] (Some [''out'']) True) ! 1)) \<and>
   output_path (fst (process_files (Mistral_service example_service)
        example_world [[''in'', ''zz.pdf''], [''in'', ''b.png'']] (Some [''out'']) True) ! 1) =
     Some [''out'', ''b.ocr.md''] \<and>
   map_of (metadata (fst (process_files (Mistral_service example_service)
        example_world [[''in'', ''zz.pdf''], [''in'', ''b.png'']] (Some [''out'']) True) ! 1))
     ''error'' = None"
proof -
  let ?ps = "[[''in'', ''zz.pdf''], [''in'', ''b.png'']]"
  let ?rs = "fst (process_files (Mistral_service example_service) example_world ?ps
                (Some [''out'']) True)"
  let ?r = "\<lparr>content = ''Scan'',
             metadata = [(''scheme'', JStr ''mistral_ocr''), (''provider'', JStr ''mistral''),
                      (''model'', JStr ''mistral-ocr-latest''), (''source_file'', JStr ''in/b.png''),
                      (''include_image_base64'', JBool True), (''pages'', JInt 1)],
             output_path = Some [''out'', ''b.ocr.md'']\<rparr>"
  note inst = results_respect_failure_marker [of example_service example_world "[''in'', ''b.png'']"
      "Some [''out'']" True ?r
      "snd (Mistral_process_file example_service example_world [''in'', ''b.png''] (Some [''out'']) True)"
      ?ps]
  have call1: "fst (Mistral_process_file example_service
                 (snd (process_files (Mistral_service example_service) example_world (take 1 ?ps)
                         (Some [''out'']) True))
                 (?ps ! 1) (Some [''out'']) True) = Inr ?r"
    by code_simp
  have marked: "has_failure_marker (metadata (?rs ! 0))"
    by code_simp
  have "fst (Mistral_process_file example_service example_world [''in'', ''b.png'']
               (Some [''out'']) True) = Inr ?r"
    by code_simp
  then have single: "Mistral_process_file example_service example_world [''in'', ''b.png'']
               (Some [''out'']) True =
      (Inr ?r, snd (Mistral_process_file example_service example_world [''in'', ''b.png'']
                      (Some [''out'']) True))"
    by (simp add: prod_eq_iff)
  with inst have no_error: "map_of (metadata ?r) ''error'' = None"
    by blast
  have "(0::nat) < length ?ps" and "(1::nat) < length ?ps" by simp_all
  with inst call1 have "result_invariant (?rs ! 0)" and "?rs ! 1 = ?r"
    and "\<not> has_failure_marker (metadata ?r)"
    by blast+
  with marked no_error show ?thesis by simp
qed

text \<open>
  C5: without an \<open>api_key\<close> argument and without \<open>MISTRAL_API_KEY\<close> in the
  environment the constructor raises the configuration error (\<open>ValueError\<close>) without
  calling the SDK; the \<open>ocr\<close> command then ends with the state of the world as it
  was (no file read or written, no remote call) and without a batch result.
\<close>

theorem missing_credential_is_fatal:
  assumes "environ ''MISTRAL_API_KEY'' = None"
  shows "MistralOCRService_init None model_arg environ new_client =
           Inl (Exc ValueError
                  ''MISTRAL_API_KEY environment variable must be set or api_key provided'') \<and>
         snd (ocr environ new_client w files output_dir model_arg incl) = w \<and>
         fst (ocr environ new_client w files output_dir model_arg incl) \<in> {Exit 1, NoFiles}"
proof -
  have init: "MistralOCRService_init None model_arg environ new_client =
           Inl (Exc ValueError
                  ''MISTRAL_API_KEY environment variable must be set or api_key provided'')"
    using assms by (simp add: MistralOCRService_init_def)
  show ?thesis
    using init by (simp add: ocr_def split: option.splits)
qed

theorem missing_credential_is_fatal_witness:
  "MistralOCRService_init None default_model Map.empty (\<lambda>k. Inr example_client) =
     Inl (Exc ValueError
            ''MISTRAL_API_KEY environment variable must be set or api_key provided'') \<and>
   snd (ocr Map.empty (\<lambda>k. Inr example_client) example_world [[''in'', ''a.pdf'']] [''out'']
          default_model False) = example_world \<and>
   fst (ocr Map.empty (\<lambda>k. Inr example_client) example_world [[''in'', ''a.pdf'']] [''out'']
          default_model False) = Exit 1"
proof -
  have env: "(Map.empty :: string \<rightharpoonup> string) ''MISTRAL_API_KEY'' = None" by simp
  have valid: "validate_files (fs example_world) [[''in'', ''a.pdf'']] = Some [[''in'', ''a.pdf'']]"
    by code_simp
  have "fst (ocr Map.empty (\<lambda>k. Inr example_client) example_world [[''in'', ''a.pdf'']] [''out'']
          default_model False) \<noteq> NoFiles"
    using valid by (simp add: ocr_def split: sum.splits prod.splits)
  with missing_credential_is_fatal [OF env, of default_model "\<lambda>k. Inr example_client"
      example_world "[[''in'', ''a.pdf'']]" "[''out'']" False]
  show ?thesis by simp
qed

text \<open>
  C7: whether a file is an image depends on the suffix of its path only. For an image
  the request payload is the inline data URL of the base64 encoding of the file, built
  without a call to the remote service; for any other file it is the signed URL of the
  uploaded file. The payload so prepared is the one \<open>process_file\<close> sends to the OCR
  call.
\<close>

theorem payload_by_extension:
  "(path_suffix p = path_suffix q \<longrightarrow> is_image_file p = is_image_file q) \<and>
   (is_image_file p \<and> open_rb (fs w) p = Inr bytes \<longrightarrow>
      prepare_document self w p =
        (Inr (ImageUrl (''data:'' @
                (if lstrip_dot (str_lower (path_suffix p)) = ''jpg'' then ''image/jpeg''
                 else ''image/'' @ lstrip_dot (str_lower (path_suffix p))) @
                '';base64,'' @ b64encode bytes)), w)) \<and>
   (\<not> is_image_file p \<and> open_rb (fs w) p = Inr bytes \<and>
    files_upload (client self) (remote w) (path_name p) bytes = (Inr file_id, r1) \<and>
    files_get_signed_url (client self) r1 file_id = (Inr url, r2) \<longrightarrow>
      prepare_document self w p = (Inr (DocumentUrl url), w\<lparr>remote := r2\<rparr>)) \<and>
   (Mistral_process_file self w p out incl = (Inr res, w') \<longrightarrow>
      (\<exists>doc w1 resp r3.
         prepare_document self w p = (Inr doc, w1) \<and>
         ocr_process (client self) (remote w1) (model self) doc incl = (Inr resp, r3) \<and>
         (is_image_file p \<longleftrightarrow> (\<exists>u. doc = ImageUrl u))))"
proof (intro conjI impI)
  assume "path_suffix p = path_suffix q"
  then show "is_image_file p = is_image_file q"
    by (simp add: is_image_file_def)
next
  assume "is_image_file p \<and> open_rb (fs w) p = Inr bytes"
  then show "prepare_document self w p =
        (Inr (ImageUrl (''data:'' @
                (if lstrip_dot (str_lower (path_suffix p)) = ''jpg'' then ''image/jpeg''
                 else ''image/'' @ lstrip_dot (str_lower (path_suffix p))) @
                '';base64,'' @ b64encode bytes)), w)"
    by (simp add: prepare_document_def encode_file_to_base64_def Let_def)
next
  assume "\<not> is_image_file p \<and> open_rb (fs w) p = Inr bytes \<and>
    files_upload (client self) (remote w) (path_name p) bytes = (Inr file_id, r1) \<and>
    files_get_signed_url (client self) r1 file_id = (Inr url, r2)"
  then show "prepare_document self w p = (Inr (DocumentUrl url), w\<lparr>remote := r2\<rparr>)"
    by (simp add: prepare_document_def)
next
  assume ret: "Mistral_process_file self w p out incl = (Inr res, w')"
  then obtain doc w1 resp r3 where
    prep: "prepare_document self w p = (Inr doc, w1)" and
    call: "ocr_process (client self) (remote w1) (model self) doc incl = (Inr resp, r3)"
    by (rule process_file_returns)
  have "is_image_file p \<longleftrightarrow> (\<exists>u. doc = ImageUrl u)"
    using prep
    by (auto simp: prepare_document_def Let_def split: if_splits sum.splits prod.splits)
  with prep call
  show "\<exists>doc w1 resp r3.
         prepare_document self w p = (Inr doc, w1) \<and>
         ocr_process (client self) (remote w1) (model self) doc incl = (Inr resp, r3) \<and>
         (is_image_file p \<longleftrightarrow> (\<exists>u. doc = ImageUrl u))"
    by blast
qed

theorem payload_by_extension_witness:
  "is_image_file [''in'', ''b.png''] = is_image_file [''scans'', ''B.PNG.png''] \<and>
   prepare_document example_service example_world [''in'', ''b.png''] =
     (Inr (ImageUrl ''data:image/png;base64,aGk=''), example_world) \<and>
   prepare_document example_service example_world [''in'', ''a.pdf''] =
     (Inr (DocumentUrl ''https://files.example/id-a.pdf''), example_world\<lparr>remote := 2\<rparr>) \<and>
   (\<exists>doc w1 resp r3.
      prepare_document example_service example_world [''in'', ''b.png''] = (Inr doc, w1) \<and>
      ocr_process (client example_service) (remote w1) (model example_service) doc False =
        (Inr resp, r3) \<and>
      (is_image_file [''in'', ''b.png''] \<longleftrightarrow> (\<exists>u. doc = ImageUrl u)))"
proof -
  let ?img = "[''in'', ''b.png'']"
  let ?pdf = "[''in'', ''a.pdf'']"
  let ?res = "\<lparr>content = ''Scan'',
             metadata = [(''scheme'', JStr ''mistral_ocr''), (''provider'', JStr ''mistral''),
                      (''model'', JStr ''mistral-ocr-latest''), (''source_file'', JStr ''in/b.png''),
                      (''include_image_base64'', JBool False), (''pages'', JInt 1)],
             output_path = None\<rparr>"
  let ?w' = "snd (Mistral_process_file example_service example_world ?img None False)"
  have suffix: "path_suffix ?img = path_suffix [''scans'', ''B.PNG.png'']" by code_simp
  have img: "is_image_file ?img" by code_simp
  have pdf: "\<not> is_image_file ?pdf" by code_simp
  have read_img: "open_rb (fs example_world) ?img = Inr ''hi''" by code_simp
  have read_pdf: "open_rb (fs example_world) ?pdf = Inr ''%PDF''" by code_simp
  have up: "files_upload (client example_service) (remote example_world) (path_name ?pdf) ''%PDF'' =
              (Inr ''id-a.pdf'', 1)" by code_simp
  have url: "files_get_signed_url (client example_service) 1 ''id-a.pdf'' =
              (Inr ''https://files.example/id-a.pdf'', 2)" by code_simp
  have "fst (Mistral_process_file example_service example_world ?img None False) = Inr ?res"
    by code_simp
  then have ret: "Mistral_process_file example_service example_world ?img None False = (Inr ?res, ?w')"
    by (simp add: prod_eq_iff)
  have ext: "lstrip_dot (str_lower (path_suffix ?img)) = ''png''" by code_simp
  have b64: "b64encode ''hi'' = ''aGk=''" by code_simp
  from payload_by_extension [of ?img "[''scans'', ''B.PNG.png'']" example_world "''hi''"
      example_service "[]" 0 "[]" 0 None False ?res ?w'] suffix img read_img ret
  have part1: "is_image_file ?img = is_image_file [''scans'', ''B.PNG.png'']"
    and part2: "prepare_document example_service example_world ?img =
        (Inr (ImageUrl (''data:'' @
                (if lstrip_dot (str_lower (path_suffix ?img)) = ''jpg'' then ''image/jpeg''
                 else ''image/'' @ lstrip_dot (str_lower (path_suffix ?img))) @
                '';base64,'' @ b64encode ''hi'')), example_world)"
    and part4: "\<exists>doc w1 resp r3.
      prepare_document example_service example_world ?img = (Inr doc, w1) \<and>
      ocr_process (client example_service) (remote w1) (model example_service) doc False =
        (Inr resp, r3) \<and>
      (is_image_file ?img \<longleftrightarrow> (\<exists>u. doc = ImageUrl u))"
    by blast+
  from payload_by_extension [of ?pdf ?pdf example_world "''%PDF''" example_service
      "''id-a.pdf''" 1 "''https://files.example/id-a.pdf''" 2 None False ?res example_world]
    pdf read_pdf up url
  have part3: "prepare_document example_service example_world ?pdf =
     (Inr (DocumentUrl ''https://files.example/id-a.pdf''), example_world\<lparr>remote := 2\<rparr>)"
    by blast
  from part2 have "prepare_document example_service example_world ?img =
     (Inr (ImageUrl ''data:image/png;base64,aGk=''), example_world)"
    by (simp add: ext b64)
  with part1 part3 part4 show ?thesis by blast
qed

text \<open>
  C4, as the specification states it, fails: an image file that exists and cannot be
  opened makes \<open>process_file\<close> raise a \<open>RuntimeError\<close>, which is not an I/O error.
\<close>

theorem read_failure_kind_counterexample:
  "open_rb (fs example_world) [''in'', ''c.png''] =
     Inl (Exc PermissionError
            (''[Errno 13] Permission denied: '' @ [CHR 0x27] @ ''in/c.png'' @ [CHR 0x27])) \<and>
   fst (Mistral_process_file example_service example_world [''in'', ''c.png''] None False) =
     Inl (Exc RuntimeError
            (''Error encoding file in/c.png: [Errno 13] Permission denied: '' @
             [CHR 0x27] @ ''in/c.png'' @ [CHR 0x27])) \<and>
   \<not> is_io_error (Exc RuntimeError
            (''Error encoding file in/c.png: [Errno 13] Permission denied: '' @
             [CHR 0x27] @ ''in/c.png'' @ [CHR 0x27]))"
proof (intro conjI)
  show "open_rb (fs example_world) [''in'', ''c.png''] =
     Inl (Exc PermissionError
            (''[Errno 13] Permission denied: '' @ [CHR 0x27] @ ''in/c.png'' @ [CHR 0x27]))"
    by code_simp
  show "fst (Mistral_process_file example_service example_world [''in'', ''c.png''] None False) =
     Inl (Exc RuntimeError
            (''Error encoding file in/c.png: [Errno 13] Permission denied: '' @
             [CHR 0x27] @ ''in/c.png'' @ [CHR 0x27]))"
    by code_simp
  show "\<not> is_io_error (Exc RuntimeError
            (''Error encoding file in/c.png: [Errno 13] Permission denied: '' @
             [CHR 0x27] @ ''in/c.png'' @ [CHR 0x27]))"
    by (simp add: is_io_error_def)
qed

text \<open>
  C4, amended: \<open>process_file\<close> returns no result when reading the source file or a
  remote call fails. For a document, the exception \<open>open\<close> raises is raised
  unchanged (an I/O error whenever \<open>open\<close> raises one). For an image, a
  \<open>FileNotFoundError\<close> from \<open>open\<close> is raised again as a \<open>FileNotFoundError\<close> with the
  text \<open>File not found: <path>\<close>, and every other exception from opening or reading
  as a \<open>RuntimeError\<close> that quotes it. A failure of the upload, of the signed-URL call
  or of the OCR call raises the exception of the provider unchanged. A failed read
  leaves the world as it was.
\<close>

theorem failures_propagate:
  "(open_rb (fs w) p = Inl e \<and> \<not> is_image_file p \<longrightarrow>
      Mistral_process_file self w p out incl = (Inl e, w)) \<and>
   (open_rb (fs w) p = Inl e \<and> is_image_file p \<and> exc_class e = FileNotFoundError \<longrightarrow>
      Mistral_process_file self w p out incl =
        (Inl (Exc FileNotFoundError (''File not found: '' @ path_str p)), w) \<and>
      is_io_error (Exc FileNotFoundError (''File not found: '' @ path_str p))) \<and>
   (open_rb (fs w) p = Inl e \<and> is_image_file p \<and> exc_class e \<noteq> FileNotFoundError \<longrightarrow>
      Mistral_process_file self w p out incl =
        (Inl (Exc RuntimeError (''Error encoding file '' @ path_str p @ '': '' @ exc_str e)), w) \<and>
      \<not> is_io_error
          (Exc RuntimeError (''Error encoding file '' @ path_str p @ '': '' @ exc_str e))) \<and>
   (\<not> is_image_file p \<and> open_rb (fs w) p = Inr bytes \<and>
    files_upload (client self) (remote w) (path_name p) bytes = (Inl e, r1) \<longrightarrow>
      Mistral_process_file self w p out incl = (Inl e, w\<lparr>remote := r1\<rparr>)) \<and>
   (\<not> is_image_file p \<and> open_rb (fs w) p = Inr bytes \<and>
    files_upload (client self) (remote w) (path_name p) bytes = (Inr file_id, r1) \<and>
    files_get_signed_url (client self) r1 file_id = (Inl e, r2) \<longrightarrow>
      Mistral_process_file self w p out incl = (Inl e, w\<lparr>remote := r2\<rparr>)) \<and>
   (prepare_document self w p = (Inr doc, w1) \<and>
    ocr_process (client self) (remote w1) (model self) doc incl = (Inl e, r3) \<longrightarrow>
      Mistral_process_file self w p out incl = (Inl e, w1\<lparr>remote := r3\<rparr>))"
proof (intro conjI impI)
  assume "open_rb (fs w) p = Inl e \<and> \<not> is_image_file p"
  then show "Mistral_process_file self w p out incl = (Inl e, w)"
    by (simp add: Mistral_process_file_def prepare_document_def)
next
  assume "open_rb (fs w) p = Inl e \<and> is_image_file p \<and> exc_class e = FileNotFoundError"
  then show "Mistral_process_file self w p out incl =
        (Inl (Exc FileNotFoundError (''File not found: '' @ path_str p)), w)"
    by (simp add: Mistral_process_file_def prepare_document_def encode_file_to_base64_def)
  show "is_io_error (Exc FileNotFoundError (''File not found: '' @ path_str p))"
    by (simp add: is_io_error_def)
next
  assume "open_rb (fs w) p = Inl e \<and> is_image_file p \<and> exc_class e \<noteq> FileNotFoundError"
  then show "Mistral_process_file self w p out incl =
        (Inl (Exc RuntimeError (''Error encoding file '' @ path_str p @ '': '' @ exc_str e)), w)"
    by (simp add: Mistral_process_file_def prepare_document_def encode_file_to_base64_def)
  show "\<not> is_io_error
          (Exc RuntimeError (''Error encoding file '' @ path_str p @ '': '' @ exc_str e))"
    by (simp add: is_io_error_def)
next
  assume "\<not> is_image_file p \<and> open_rb (fs w) p = Inr bytes \<and>
    files_upload (client self) (remote w) (path_name p) bytes = (Inl e, r1)"
  then show "Mistral_process_file self w p out incl = (Inl e, w\<lparr>remote := r1\<rparr>)"
    by (simp add: Mistral_process_file_def prepare_document_def)
next
  assume "\<not> is_image_file p \<and> open_rb (fs w) p = Inr bytes \<and>
    files_upload (client self) (remote w) (path_name p) bytes = (Inr file_id, r1) \<and>
    files_get_signed_url (client self) r1 file_id = (Inl e, r2)"
  then show "Mistral_process_file self w p out incl = (Inl e, w\<lparr>remote := r2\<rparr>)"
    by (simp add: Mistral_process_file_def prepare_document_def)
next
  assume "prepare_document self w p = (Inr doc, w1) \<and>
    ocr_process (client self) (remote w1) (model self) doc incl = (Inl e, r3)"
  then show "Mistral_process_file self w p out incl = (Inl e, w1\<lparr>remote := r3\<rparr>)"
    by (simp add: Mistral_process_file_def)
qed

theorem failures_propagate_witness:
  "Mistral_process_file example_service example_world [''in'', ''zz.pdf''] None False =
     (Inl (Exc FileNotFoundError
             (''[Errno 2] No such file or directory: '' @ [CHR 0x27] @ ''in/zz.pdf'' @ [CHR 0x27])),
      example_world) \<and>
   Mistral_process_file example_service example_world [''in'', ''zz.png''] None False =
     (Inl (Exc FileNotFoundError ''File not found: in/zz.png''), example_world) \<and>
   Mistral_process_file example_service example_world [''in'', ''c.png''] None False =
     (Inl (Exc RuntimeError
             (''Error encoding file in/c.png: [Errno 13] Permission denied: '' @
              [CHR 0x27] @ ''in/c.png'' @ [CHR 0x27])),
      example_world) \<and>
   Mistral_process_file example_service example_world [''in'', ''a.pdf'', ''x.png''] None False =
     (Inl (Exc RuntimeError
             (''Error encoding file in/a.pdf/x.png: [Errno 20] Not a directory: '' @
              [CHR 0x27] @ ''in/a.pdf/x.png'' @ [CHR 0x27])),
      example_world) \<and>
   Mistral_process_file example_service example_world [''in'', ''empty.pdf''] None False =
     (Inl (Exc SDKError ''Status 422: empty file''), example_world\<lparr>remote := 1\<rparr>) \<and>
   Mistral_process_file example_service example_world [''in'', ''expired.pdf''] None False =
     (Inl (Exc SDKError ''Status 404: no such file''), example_world\<lparr>remote := 2\<rparr>) \<and>
   fst (Mistral_process_file (example_service\<lparr>model := ''none''\<rparr>) example_world
          [''in'', ''a.pdf''] None False) =
     Inl (Exc SDKError ''Status 400: invalid model'')"
proof -
  let ?enoent = "Exc FileNotFoundError
             (''[Errno 2] No such file or directory: '' @ [CHR 0x27] @ ''in/zz.pdf'' @ [CHR 0x27])"
  let ?enoent' = "Exc FileNotFoundError
             (''[Errno 2] No such file or directory: '' @ [CHR 0x27] @ ''in/zz.png'' @ [CHR 0x27])"
  let ?eperm = "Exc PermissionError
            (''[Errno 13] Permission denied: '' @ [CHR 0x27] @ ''in/c.png'' @ [CHR 0x27])"
  have doc: "\<not> is_image_file [''in'', ''zz.pdf'']" "\<not> is_image_file [''in'', ''empty.pdf'']"
    "\<not> is_image_file [''in'', ''expired.pdf'']"
    by code_simp+
  let ?enotdir = "Exc NotADirectoryError
            (''[Errno 20] Not a directory: '' @ [CHR 0x27] @ ''in/a.pdf/x.png'' @ [CHR 0x27])"
  have img: "is_image_file [''in'', ''zz.png'']" "is_image_file [''in'', ''c.png'']"
    "is_image_file [''in'', ''a.pdf'', ''x.png'']"
    by code_simp+
  have r3': "open_rb (fs example_world) [''in'', ''a.pdf'', ''x.png''] = Inl ?enotdir"
    by code_simp
  have r1: "open_rb (fs example_world) [''in'', ''zz.pdf''] = Inl ?enoent" by code_simp
  have r2: "open_rb (fs example_world) [''in'', ''zz.png''] = Inl ?enoent'" by code_simp
  have r3: "open_rb (fs example_world) [''in'', ''c.png''] = Inl ?eperm" by code_simp
  have r4: "open_rb (fs example_world) [''in'', ''empty.pdf''] = Inr []" by code_simp
  have r5: "open_rb (fs example_world) [''in'', ''expired.pdf''] = Inr ''%PDF''" by code_simp
  have u4: "files_upload (client example_service) (remote example_world)
              (path_name [''in'', ''empty.pdf'']) [] =
              (Inl (Exc SDKError ''Status 422: empty file''), 1)" by code_simp
  have u5: "files_upload (client example_service) (remote example_world)
              (path_name [''in'', ''expired.pdf'']) ''%PDF'' = (Inr ''id-expired.pdf'', 1)"
    by code_simp
  have s5: "files_get_signed_url (client example_service) 1 ''id-expired.pdf'' =
              (Inl (Exc SDKError ''Status 404: no such file''), 2)" by code_simp
  let ?none = "example_service\<lparr>model := ''none''\<rparr>"
  let ?w1 = "snd (prepare_document ?none example_world [''in'', ''a.pdf''])"
  have "fst (prepare_document ?none example_world [''in'', ''a.pdf'']) =
          Inr (DocumentUrl ''https://files.example/id-a.pdf'')" by code_simp
  then have p6: "prepare_document ?none example_world [''in'', ''a.pdf''] =
          (Inr (DocumentUrl ''https://files.example/id-a.pdf''), ?w1)"
    by (simp add: prod_eq_iff)
  have o6: "ocr_process (client ?none) (remote ?w1) (model ?none)
              (DocumentUrl ''https://files.example/id-a.pdf'') False =
              (Inl (Exc SDKError ''Status 400: invalid model''), 3)" by code_simp
  have c1: "Mistral_process_file example_service example_world [''in'', ''zz.pdf''] None False =
              (Inl ?enoent, example_world)"
    using failures_propagate [of example_world "[''in'', ''zz.pdf'']" ?enoent example_service
        None False] doc r1 by blast
  have c2: "Mistral_process_file example_service example_world [''in'', ''zz.png''] None False =
              (Inl (Exc FileNotFoundError (''File not found: '' @ path_str [''in'', ''zz.png''])),
               example_world)"
    using failures_propagate [of example_world "[''in'', ''zz.png'']" ?enoent' example_service
        None False] img r2 by simp
  have c3: "Mistral_process_file example_service example_world [''in'', ''c.png''] None False =
              (Inl (Exc RuntimeError (''Error encoding file '' @ path_str [''in'', ''c.png''] @
                      '': '' @ exc_str ?eperm)), example_world)"
    using failures_propagate [of example_world "[''in'', ''c.png'']" ?eperm example_service
        None False] img r3 by simp
  have c3': "Mistral_process_file example_service example_world [''in'', ''a.pdf'', ''x.png'']
               None False =
              (Inl (Exc RuntimeError (''Error encoding file '' @
                      path_str [''in'', ''a.pdf'', ''x.png''] @ '': '' @ exc_str ?enotdir)),
               example_world)"
    using failures_propagate [of example_world "[''in'', ''a.pdf'', ''x.png'']" ?enotdir
        example_service None False] img r3' by simp
  have c4: "Mistral_process_file example_service example_world [''in'', ''empty.pdf''] None False =
              (Inl (Exc SDKError ''Status 422: empty file''), example_world\<lparr>remote := 1\<rparr>)"
    using failures_propagate [of example_world "[''in'', ''empty.pdf'']"
        "Exc SDKError ''Status 422: empty file''" example_service None False "[]" 1]
      doc r4 u4 by blast
  have c5: "Mistral_process_file example_service example_world [''in'', ''expired.pdf''] None False =
              (Inl (Exc SDKError ''Status 404: no such file''), example_world\<lparr>remote := 2\<rparr>)"
    using failures_propagate [of example_world "[''in'', ''expired.pdf'']"
        "Exc SDKError ''Status 404: no such file''" example_service None False "''%PDF''" 1
        "''id-expired.pdf''" 2]
      doc r5 u5 s5 by blast
  have c6: "Mistral_process_file ?none example_world [''in'', ''a.pdf''] None False =
              (Inl (Exc SDKError ''Status 400: invalid model''), ?w1\<lparr>remote := 3\<rparr>)"
    using failures_propagate [of example_world "[''in'', ''a.pdf'']"
        "Exc SDKError ''Status 400: invalid model''" ?none None False "[]" 0 "[]" 0
        "DocumentUrl ''https://files.example/id-a.pdf''" ?w1 3]
      p6 o6 by blast
  from c1 c2 c3 c3' c4 c5 c6 show ?thesis
    by (simp add: path_str_def)
qed

section \<open>The metadata file\<close>
















section \<open>Properties of the persisted output\<close>

lemma save_output_Inr:
  "save_output f p (Some d) body md = (Inr out, f') \<longleftrightarrow>
     (\<exists>f1 f2.
        mkdir_parents f d = (None, f1) \<and>
        write_text f1 (path_join d (path_stem p @ ''.ocr.md'')) body = (None, f2) \<and>
        write_text f2 (path_join d (path_stem p @ ''.ocr.json'')) (json_dumps md) = (None, f')) \<and>
     out = Some (path_join d (path_stem p @ ''.ocr.md''))"
  by (auto simp: save_output_def Let_def split: prod.splits option.splits)

lemma mkdir_parents_calls:
  assumes "mkdir_parents f d = (r, f')"
  shows "os_write f' = os_write f" and "os_open_rb f' = os_open_rb f"
  using assms by (auto simp: mkdir_parents_def split: prod.splits)

lemma write_text_calls:
  assumes "write_text f p body = (r, f')"
  shows "os_write f' = os_write f" and "os_open_rb f' = os_open_rb f"
    and "os_write f (disk f) p body = (r, disk f')"
  using assms by (auto simp: write_text_def split: prod.splits)

text \<open>After the three calls, in a file system that reads back what was written, the two
  files hold the two texts.\<close>

lemma written_files_read_back:
  assumes mk: "mkdir_parents f d = (None, f1)"
    and wa: "write_text f1 a ta = (None, f2)"
    and wb: "write_text f2 b tb = (None, f3)"
    and law: "reads_back f a b"
  shows "open_rb f3 a = Inr ta" and "open_rb f3 b = Inr tb"
    and "os_write f3 = os_write f" and "os_open_rb f3 = os_open_rb f"
proof -
  have w1: "os_write f1 = os_write f" and o1: "os_open_rb f1 = os_open_rb f"
    using mkdir_parents_calls [OF mk] by simp_all
  have w2: "os_write f2 = os_write f" and o2: "os_open_rb f2 = os_open_rb f"
    and ca: "os_write f (disk f1) a ta = (None, disk f2)"
    using write_text_calls [OF wa] w1 o1 by simp_all
  show w3: "os_write f3 = os_write f" and o3: "os_open_rb f3 = os_open_rb f"
    using write_text_calls [OF wb] w2 o2 by simp_all
  have cb: "os_write f (disk f2) b tb = (None, disk f3)"
    using write_text_calls [OF wb] w2 by simp
  from law ca have "os_open_rb f (disk f2) a = Inr ta"
    unfolding reads_back_def by blast
  moreover from law cb have "os_open_rb f (disk f3) b = Inr tb"
    and "os_open_rb f (disk f3) a = os_open_rb f (disk f2) a"
    unfolding reads_back_def by blast+
  ultimately show "open_rb f3 a = Inr ta" and "open_rb f3 b = Inr tb"
    by (simp_all add: open_rb_def o3)
qed

lemma reads_back_same_calls:
  "os_write f' = os_write f \<Longrightarrow> os_open_rb f' = os_open_rb f \<Longrightarrow>
   reads_back f' a b = reads_back f a b"
  by (simp add: reads_back_def)

text \<open>The example file system reads back what was written to two different paths, when
  the second is not an ancestor of the first.\<close>

lemma example_reads_back:
  assumes "a \<noteq> b" and "b \<notin> set (butlast (ancestors a))"
  shows "reads_back example_fs a b"
proof -
  have own: "example_open_rb s' x = Inr body" if "example_write s x body = (None, s')"
    for s s' x body
    using that by (auto simp: example_write_def example_open_rb_def split: option.splits node.splits)
  have other: "example_open_rb s' a = example_open_rb s a" if "example_write s b body = (None, s')"
    for s s' body
  proof -
    from that have s': "s' = s(b \<mapsto> File body)"
      by (auto simp: example_write_def split: option.splits node.splits)
    have "s' q = s q" if "q \<in> set (butlast (ancestors a))" for q
      using that assms(2) s' by auto
    then have below: "(\<exists>q \<in> set (butlast (ancestors a)). s' q \<noteq> None \<and> s' q \<noteq> Some Dir) =
               (\<exists>q \<in> set (butlast (ancestors a)). s q \<noteq> None \<and> s q \<noteq> Some Dir)"
      by auto
    have at: "s' a = s a" using s' assms(1) by simp
    show ?thesis unfolding example_open_rb_def below at by (rule refl)
  qed
  show ?thesis
    unfolding reads_back_def example_fs_def using own other by simp
qed



text \<open>
  C10: the output paths are made of the output directory and the stem of the input
  path alone. When two calls with the same output directory \<open>d\<close>, on paths with the
  same stem, return one after the other, both results carry the same \<open>output_path\<close>,
  and the second call has written its content and its metadata to the very two paths
  the first call wrote to, without any other call on the file system than making the
  directory: what the first call wrote there is replaced. In a file system that reads
  back what was written, the two files hold the output of the first call after the
  first call, and the output of the second call after the second.
\<close>

theorem same_stem_overwrites:
  assumes first: "Mistral_process_file self w p (Some d) incl = (Inr res1, w1)"
    and second: "Mistral_process_file self w1 q (Some d) incl' = (Inr res2, w2)"
    and stem: "path_stem q = path_stem p"
  shows "output_path res1 = Some (path_join d (path_stem p @ ''.ocr.md'')) \<and>
         output_path res2 = output_path res1 \<and>
         (\<exists>f1 f2.
            mkdir_parents (fs w) d = (None, f1) \<and>
            write_text f1 (path_join d (path_stem p @ ''.ocr.md'')) (content res1) = (None, f2) \<and>
            write_text f2 (path_join d (path_stem p @ ''.ocr.json''))
              (json_dumps (metadata res1)) = (None, fs w1)) \<and>
         (\<exists>g1 g2.
            mkdir_parents (fs w1) d = (None, g1) \<and>
            write_text g1 (path_join d (path_stem p @ ''.ocr.md'')) (content res2) = (None, g2) \<and>
            write_text g2 (path_join d (path_stem p @ ''.ocr.json''))
              (json_dumps (metadata res2)) = (None, fs w2)) \<and>
         (reads_back (fs w) (path_join d (path_stem p @ ''.ocr.md''))
            (path_join d (path_stem p @ ''.ocr.json'')) \<longrightarrow>
            open_rb (fs w1) (path_join d (path_stem p @ ''.ocr.md'')) = Inr (content res1) \<and>
            open_rb (fs w1) (path_join d (path_stem p @ ''.ocr.json'')) =
              Inr (json_dumps (metadata res1)) \<and>
            open_rb (fs w2) (path_join d (path_stem p @ ''.ocr.md'')) = Inr (content res2) \<and>
            open_rb (fs w2) (path_join d (path_stem p @ ''.ocr.json'')) =
              Inr (json_dumps (metadata res2)))"
proof -
  let ?m = "path_join d (path_stem p @ ''.ocr.md'')"
  let ?j = "path_join d (path_stem p @ ''.ocr.json'')"
  from first obtain resp1 where
    save1: "save_output (fs w) p (Some d) (extract_content_from_response resp1)
       (create_metadata self resp1 p incl) = (Inr (output_path res1), fs w1)"
    and c1: "content res1 = extract_content_from_response resp1"
    and m1: "metadata res1 = create_metadata self resp1 p incl"
    by (rule process_file_returns)
  from second obtain resp2 where
    save2: "save_output (fs w1) q (Some d) (extract_content_from_response resp2)
       (create_metadata self resp2 q incl') = (Inr (output_path res2), fs w2)"
    and c2: "content res2 = extract_content_from_response resp2"
    and m2: "metadata res2 = create_metadata self resp2 q incl'"
    by (rule process_file_returns)
  from save1 have out1: "output_path res1 = Some (path_join d (path_stem p @ ''.ocr.md''))"
    by (simp add: save_output_Inr)
  from save2 have out2: "output_path res2 = Some (path_join d (path_stem p @ ''.ocr.md''))"
    by (simp add: save_output_Inr stem)
  from save1 have calls1: "\<exists>f1 f2.
            mkdir_parents (fs w) d = (None, f1) \<and>
            write_text f1 (path_join d (path_stem p @ ''.ocr.md'')) (content res1) = (None, f2) \<and>
            write_text f2 (path_join d (path_stem p @ ''.ocr.json''))
              (json_dumps (metadata res1)) = (None, fs w1)"
    unfolding c1 m1 by (simp add: save_output_Inr)
  from save2 have calls2: "\<exists>g1 g2.
            mkdir_parents (fs w1) d = (None, g1) \<and>
            write_text g1 (path_join d (path_stem p @ ''.ocr.md'')) (content res2) = (None, g2) \<and>
            write_text g2 (path_join d (path_stem p @ ''.ocr.json''))
              (json_dumps (metadata res2)) = (None, fs w2)"
    unfolding c2 m2 by (simp add: save_output_Inr stem)
  have held: "open_rb (fs w1) ?m = Inr (content res1) \<and>
      open_rb (fs w1) ?j = Inr (json_dumps (metadata res1)) \<and>
      open_rb (fs w2) ?m = Inr (content res2) \<and>
      open_rb (fs w2) ?j = Inr (json_dumps (metadata res2))"
    if law: "reads_back (fs w) ?m ?j"
  proof -
    from calls1 obtain f1 f2 where
      a1: "mkdir_parents (fs w) d = (None, f1)"
      and a2: "write_text f1 ?m (content res1) = (None, f2)"
      and a3: "write_text f2 ?j (json_dumps (metadata res1)) = (None, fs w1)"
      by blast
    note one = written_files_read_back [OF a1 a2 a3 law]
    have law1: "reads_back (fs w1) ?m ?j"
      using reads_back_same_calls [OF one(3,4), of ?m ?j] law by simp
    from calls2 obtain g1 g2 where
      b1: "mkdir_parents (fs w1) d = (None, g1)"
      and b2: "write_text g1 ?m (content res2) = (None, g2)"
      and b3: "write_text g2 ?j (json_dumps (metadata res2)) = (None, fs w2)"
      by blast
    note two = written_files_read_back [OF b1 b2 b3 law1]
    from one(1,2) two(1,2) show ?thesis by simp
  qed
  show ?thesis
  proof (intro conjI impI)
    show "output_path res1 = Some ?m" by (rule out1)
    show "output_path res2 = output_path res1" by (simp add: out1 out2)
    show "\<exists>f1 f2.
            mkdir_parents (fs w) d = (None, f1) \<and>
            write_text f1 ?m (content res1) = (None, f2) \<and>
            write_text f2 ?j (json_dumps (metadata res1)) = (None, fs w1)"
      by (rule calls1)
    show "\<exists>g1 g2.
            mkdir_parents (fs w1) d = (None, g1) \<and>
            write_text g1 ?m (content res2) = (None, g2) \<and>
            write_text g2 ?j (json_dumps (metadata res2)) = (None, fs w2)"
      by (rule calls2)
  next
    assume "reads_back (fs w) ?m ?j"
    from held [OF this]
    show "open_rb (fs w1) ?m = Inr (content res1)"
      and "open_rb (fs w1) ?j = Inr (json_dumps (metadata res1))"
      and "open_rb (fs w2) ?m = Inr (content res2)"
      and "open_rb (fs w2) ?j = Inr (json_dumps (metadata res2))"
      by simp_all
  qed
qed

theorem same_stem_overwrites_witness:
  "output_path \<lparr>content = ''# Title'' @ [CHR 0x0A, CHR 0x0A] @ ''Body'',
      metadata = [(''scheme'', JStr ''mistral_ocr''), (''provider'', JStr ''mistral''),
                  (''model'', JStr ''mistral-ocr-latest''), (''source_file'', JStr ''old/a.txt''),
                  (''include_image_base64'', JBool True), (''pages'', JInt 2)],
      output_path = Some [''out'', ''a.ocr.md'']\<rparr> =
   output_path \<lparr>content = ''# Title'' @ [CHR 0x0A, CHR 0x0A] @ ''Body'',
      metadata = [(''scheme'', JStr ''mistral_ocr''), (''provider'', JStr ''mistral''),
                  (''model'', JStr ''mistral-ocr-latest''), (''source_file'', JStr ''in/a.pdf''),
                  (''include_image_base64'', JBool False), (''pages'', JInt 2)],
      output_path = Some [''out'', ''a.ocr.md'']\<rparr> \<and>
   fst (Mistral_process_file example_service example_world [''in'', ''a.pdf'']
          (Some [''out'']) False) =
     Inr \<lparr>content = ''# Title'' @ [CHR 0x0A, CHR 0x0A] @ ''Body'',
      metadata = [(''scheme'', JStr ''mistral_ocr''), (''provider'', JStr ''mistral''),
                  (''model'', JStr ''mistral-ocr-latest''), (''source_file'', JStr ''in/a.pdf''),
                  (''include_image_base64'', JBool False), (''pages'', JInt 2)],
      output_path = Some [''out'', ''a.ocr.md'']\<rparr> \<and>
   fst (Mistral_process_file example_service
          (snd (Mistral_process_file example_service example_world [''in'', ''a.pdf'']
                  (Some [''out'']) False))
          [''old'', ''a.txt''] (Some [''out'']) True) =
     Inr \<lparr>content = ''# Title'' @ [CHR 0x0A, CHR 0x0A] @ ''Body'',
          metadata = [(''scheme'', JStr ''mistral_ocr''), (''provider'', JStr ''mistral''),
                      (''model'', JStr ''mistral-ocr-latest''), (''source_file'', JStr ''old/a.txt''),
                      (''include_image_base64'', JBool True), (''pages'', JInt 2)],
          output_path = Some [''out'', ''a.ocr.md'']\<rparr> \<and>
   open_rb (fs (snd (Mistral_process_file example_service example_world [''in'', ''a.pdf'']
              (Some [''out'']) False))) [''out'', ''a.ocr.json''] =
     Inr ''{\<newline>  \"scheme\": \"mistral_ocr\",\<newline>  \"provider\": \"mistral\",\<newline>  \"model\": \"mistral-ocr-latest\",\<newline>  \"source_file\": \"in/a.pdf\",\<newline>  \"include_image_base64\": false,\<newline>  \"pages\": 2\<newline>}'' \<and>
   open_rb (fs (snd (Mistral_process_file example_service
          (snd (Mistral_process_file example_service example_world [''in'', ''a.pdf'']
                  (Some [''out'']) False))
          [''old'', ''a.txt''] (Some [''out'']) True))) [''out'', ''a.ocr.json''] =
     Inr ''{\<newline>  \"scheme\": \"mistral_ocr\",\<newline>  \"provider\": \"mistral\",\<newline>  \"model\": \"mistral-ocr-latest\",\<newline>  \"source_file\": \"old/a.txt\",\<newline>  \"include_image_base64\": true,\<newline>  \"pages\": 2\<newline>}''"
proof -
  let ?p = "[''in'', ''a.pdf'']"
  let ?q = "[''old'', ''a.txt'']"
  let ?d = "[''out'']"
  let ?md1 = "[(''scheme'', JStr ''mistral_ocr''), (''provider'', JStr ''mistral''),
             (''model'', JStr ''mistral-ocr-latest''), (''source_file'', JStr ''in/a.pdf''),
             (''include_image_base64'', JBool False), (''pages'', JInt 2)]"
  let ?md2 = "[(''scheme'', JStr ''mistral_ocr''), (''provider'', JStr ''mistral''),
             (''model'', JStr ''mistral-ocr-latest''), (''source_file'', JStr ''old/a.txt''),
             (''include_image_base64'', JBool True), (''pages'', JInt 2)]"
  let ?body = "''# Title'' @ [CHR 0x0A, CHR 0x0A] @ ''Body''"
  let ?res1 = "\<lparr>content = ?body, metadata = ?md1, output_path = Some [''out'', ''a.ocr.md'']\<rparr>"
  let ?res2 = "\<lparr>content = ?body, metadata = ?md2, output_path = Some [''out'', ''a.ocr.md'']\<rparr>"
  let ?c1 = "Mistral_process_file example_service example_world ?p (Some ?d) False"
  let ?c2 = "Mistral_process_file example_service (snd ?c1) ?q (Some ?d) True"
  have stems: "path_stem ?q = path_stem ?p" by code_simp
  have r1: "fst ?c1 = Inr ?res1" by code_simp
  then have first: "?c1 = (Inr ?res1, snd ?c1)" by (simp add: prod_eq_iff)
  have r2: "fst ?c2 = Inr ?res2" by code_simp
  then have second: "?c2 = (Inr ?res2, snd ?c2)" by (simp add: prod_eq_iff)
  have m: "path_join ?d (path_stem ?p @ ''.ocr.md'') = [''out'', ''a.ocr.md'']"
    and j: "path_join ?d (path_stem ?p @ ''.ocr.json'') = [''out'', ''a.ocr.json'']"
    by code_simp+
  have "[''out'', ''a.ocr.md''] \<noteq> [''out'', ''a.ocr.json'']"
    and "[''out'', ''a.ocr.json''] \<notin> set (butlast (ancestors [''out'', ''a.ocr.md'']))"
    by code_simp+
  then have "reads_back example_fs [''out'', ''a.ocr.md''] [''out'', ''a.ocr.json'']"
    by (rule example_reads_back)
  then have law: "reads_back (fs example_world) (path_join ?d (path_stem ?p @ ''.ocr.md''))
                    (path_join ?d (path_stem ?p @ ''.ocr.json''))"
    by (simp add: m j example_world_def)
  have d1: "json_dumps ?md1 =
     ''{\<newline>  \"scheme\": \"mistral_ocr\",\<newline>  \"provider\": \"mistral\",\<newline>  \"model\": \"mistral-ocr-latest\",\<newline>  \"source_file\": \"in/a.pdf\",\<newline>  \"include_image_base64\": false,\<newline>  \"pages\": 2\<newline>}''"
    by code_simp
  have d2: "json_dumps ?md2 =
     ''{\<newline>  \"scheme\": \"mistral_ocr\",\<newline>  \"provider\": \"mistral\",\<newline>  \"model\": \"mistral-ocr-latest\",\<newline>  \"source_file\": \"old/a.txt\",\<newline>  \"include_image_base64\": true,\<newline>  \"pages\": 2\<newline>}''"
    by code_simp
  from same_stem_overwrites [OF first second stems] law
  have same: "output_path ?res2 = output_path ?res1"
    and old: "open_rb (fs (snd ?c1)) (path_join ?d (path_stem ?p @ ''.ocr.json'')) =
                Inr (json_dumps (metadata ?res1))"
    and new: "open_rb (fs (snd ?c2)) (path_join ?d (path_stem ?p @ ''.ocr.json'')) =
                Inr (json_dumps (metadata ?res2))"
    by blast+
  from old new have "open_rb (fs (snd ?c1)) [''out'', ''a.ocr.json''] = Inr (json_dumps ?md1)"
    and "open_rb (fs (snd ?c2)) [''out'', ''a.ocr.json''] = Inr (json_dumps ?md2)"
    by (simp_all add: j)
  with same r1 r2 show ?thesis by (simp add: d1 d2)
qed

section \<open>Repeating a call\<close>

lemma prepare_document_deterministic:
  assumes det: "remote_deterministic (client self)" and same: "fs w = fs v"
  shows "fst (prepare_document self w p) = fst (prepare_document self v p)"
proof (cases "is_image_file p")
  case True
  with same show ?thesis
    by (simp add: prepare_document_def Let_def split: sum.splits)
next
  case False
  show ?thesis
  proof (cases "open_rb (fs v) p")
    case (Inl e)
    with False same show ?thesis by (simp add: prepare_document_def)
  next
    case (Inr bytes)
    obtain u1 r1 where u1: "files_upload (client self) (remote w) (path_name p) bytes = (u1, r1)"
      by (cases "files_upload (client self) (remote w) (path_name p) bytes")
    obtain u2 s1 where u2: "files_upload (client self) (remote v) (path_name p) bytes = (u2, s1)"
      by (cases "files_upload (client self) (remote v) (path_name p) bytes")
    have "fst (files_upload (client self) (remote w) (path_name p) bytes) =
          fst (files_upload (client self) (remote v) (path_name p) bytes)"
      using det by (simp add: remote_deterministic_def)
    with u1 u2 have u: "u2 = u1" by simp
    show ?thesis
    proof (cases u1)
      case (Inl e)
      with False same Inr u1 u2 u show ?thesis by (simp add: prepare_document_def)
    next
      case id: (Inr file_id)
      obtain g1 r2 where g1: "files_get_signed_url (client self) r1 file_id = (g1, r2)"
        by (cases "files_get_signed_url (client self) r1 file_id")
      obtain g2 s2 where g2: "files_get_signed_url (client self) s1 file_id = (g2, s2)"
        by (cases "files_get_signed_url (client self) s1 file_id")
      have "fst (files_get_signed_url (client self) r1 file_id) =
            fst (files_get_signed_url (client self) s1 file_id)"
        using det by (simp add: remote_deterministic_def)
      with g1 g2 have g: "g2 = g1" by simp
      from False same Inr u1 u2 u id g1 g2 g show ?thesis
        by (cases g1) (simp_all add: prepare_document_def)
    qed
  qed
qed

lemma process_file_no_output_fs:
  "fs (snd (Mistral_process_file self w p None incl)) = fs w"
proof -
  obtain pd w1 where pd: "prepare_document self w p = (pd, w1)"
    by (cases "prepare_document self w p")
  have fs1: "fs w1 = fs w"
    using prepare_document_fs [of self w p] pd by simp
  show ?thesis
    using pd fs1
    by (simp add: Mistral_process_file_def save_output_def Let_def split: sum.splits prod.splits)
qed

lemma process_file_deterministic:
  assumes det: "remote_deterministic (client self)" and same: "fs w = fs v"
  shows "fst (Mistral_process_file self w p None incl) =
         fst (Mistral_process_file self v p None incl)"
proof -
  obtain pd w1 where pw: "prepare_document self w p = (pd, w1)"
    by (cases "prepare_document self w p")
  obtain pd' v1 where pv: "prepare_document self v p = (pd', v1)"
    by (cases "prepare_document self v p")
  from prepare_document_deterministic [OF det same, of p] pw pv have pd': "pd' = pd" by simp
  show ?thesis
  proof (cases pd)
    case (Inl e)
    with pw pv pd' show ?thesis by (simp add: Mistral_process_file_def)
  next
    case (Inr doc)
    obtain o1 r2 where o1: "ocr_process (client self) (remote w1) (model self) doc incl = (o1, r2)"
      by (cases "ocr_process (client self) (remote w1) (model self) doc incl")
    obtain o2 s2 where o2: "ocr_process (client self) (remote v1) (model self) doc incl = (o2, s2)"
      by (cases "ocr_process (client self) (remote v1) (model self) doc incl")
    have "fst (ocr_process (client self) (remote w1) (model self) doc incl) =
          fst (ocr_process (client self) (remote v1) (model self) doc incl)"
      using det by (simp add: remote_deterministic_def)
    with o1 o2 have o: "o2 = o1" by simp
    from pw pv pd' Inr o1 o2 o show ?thesis
      by (cases o1) (simp_all add: Mistral_process_file_def save_output_def Let_def)
  qed
qed

text \<open>
  C9: with a deterministic remote service, two calls of \<open>process_file\<close> in a row on
  the same path, with the same options and no output directory, end the same way:
  both raise the same error or both return the same result (the same content, the
  same metadata, no output path). The first call leaves the file system as it was.
\<close>

theorem repeated_call_same_result:
  assumes "remote_deterministic (client self)"
    and "Mistral_process_file self w p None incl = (out1, w1)"
    and "Mistral_process_file self w1 p None incl = (out2, w2)"
  shows "out2 = out1 \<and> fs w1 = fs w \<and>
         (\<forall>res1 res2. out1 = Inr res1 \<and> out2 = Inr res2 \<longrightarrow>
            content res2 = content res1 \<and> metadata res2 = metadata res1)"
proof -
  have fs1: "fs w1 = fs w"
    using process_file_no_output_fs [of self w p incl] assms(2) by simp
  from process_file_deterministic [OF assms(1) fs1, of p incl] assms(2,3)
  have "out2 = out1" by simp
  with fs1 show ?thesis by auto
qed

lemma example_client_deterministic: "remote_deterministic example_client"
  by (simp add: remote_deterministic_def example_client_def split: document.splits)

theorem repeated_call_same_result_witness:
  "fst (Mistral_process_file example_service
          (snd (Mistral_process_file example_service example_world [''in'', ''a.pdf''] None False))
          [''in'', ''a.pdf''] None False) =
     Inr \<lparr>content = ''# Title'' @ [CHR 0x0A, CHR 0x0A] @ ''Body'',
          metadata = [(''scheme'', JStr ''mistral_ocr''), (''provider'', JStr ''mistral''),
                      (''model'', JStr ''mistral-ocr-latest''), (''source_file'', JStr ''in/a.pdf''),
                      (''include_image_base64'', JBool False), (''pages'', JInt 2)],
          output_path = None\<rparr> \<and>
   remote (snd (Mistral_process_file example_service example_world [''in'', ''a.pdf''] None False)) = 3 \<and>
   fs (snd (Mistral_process_file example_service example_world [''in'', ''a.pdf''] None False)) =
     fs example_world"
proof -
  let ?p = "[''in'', ''a.pdf'']"
  let ?res = "\<lparr>content = ''# Title'' @ [CHR 0x0A, CHR 0x0A] @ ''Body'',
          metadata = [(''scheme'', JStr ''mistral_ocr''), (''provider'', JStr ''mistral''),
                      (''model'', JStr ''mistral-ocr-latest''), (''source_file'', JStr ''in/a.pdf''),
                      (''include_image_base64'', JBool False), (''pages'', JInt 2)],
          output_path = None\<rparr>"
  let ?w1 = "snd (Mistral_process_file example_service example_world ?p None False)"
  let ?c2 = "Mistral_process_file example_service ?w1 ?p None False"
  have det: "remote_deterministic (client example_service)"
    by (simp add: example_service_def example_client_deterministic)
  have "fst (Mistral_process_file example_service example_world ?p None False) = Inr ?res"
    by code_simp
  then have first: "Mistral_process_file example_service example_world ?p None False = (Inr ?res, ?w1)"
    by (simp add: prod_eq_iff)
  have second: "?c2 = (fst ?c2, snd ?c2)" by simp
  have state: "remote ?w1 = 3" by code_simp
  from repeated_call_same_result [OF det first second] state
  show ?thesis by simp
qed

end
